theory Spec2Isabelle
  imports Main "HOL-Library.Word"
begin

unbundle bit_operations_syntax

section \<open>Packet type registry (src/lib/packets.js)\<close>

text \<open>
  \<open>exports.types\<close> is an object literal: its properties in source order, each with
  its numeric value. \<open>exports.typesByVal\<close> is an array literal of names.
\<close>

definition types :: "(string \<times> nat) list" where
  "types =
    [(''VERSION'', 0), (''VERACK'', 1), (''PING'', 2), (''PONG'', 3),
     (''GETADDR'', 4), (''ADDR'', 5), (''INV'', 6), (''GETDATA'', 7),
     (''NOTFOUND'', 8), (''GETBLOCKS'', 9), (''GETHEADERS'', 10), (''HEADERS'', 11),
     (''SENDHEADERS'', 12), (''BLOCK'', 13), (''TX'', 14), (''REJECT'', 15),
     (''MEMPOOL'', 16), (''FILTERLOAD'', 17), (''FILTERADD'', 18), (''FILTERCLEAR'', 19),
     (''MERKLEBLOCK'', 20), (''FEEFILTER'', 21), (''SENDCMPCT'', 22), (''CMPCTBLOCK'', 23),
     (''GETBLOCKTXN'', 24), (''BLOCKTXN'', 25), (''GETPROOF'', 26), (''PROOF'', 27),
     (''CLAIM'', 28), (''AIRDROP'', 29), (''UNKNOWN'', 30),
     (''INTERNAL'', 31), (''DATA'', 32)]"

definition typesByVal :: "string list" where
  "typesByVal =
    [''VERSION'', ''VERACK'', ''PING'', ''PONG'',
     ''GETADDR'', ''ADDR'', ''INV'', ''GETDATA'',
     ''NOTFOUND'', ''GETBLOCKS'', ''GETHEADERS'', ''HEADERS'',
     ''SENDHEADERS'', ''BLOCK'', ''TX'', ''REJECT'',
     ''MEMPOOL'', ''FILTERLOAD'', ''FILTERADD'', ''FILTERCLEAR'',
     ''MERKLEBLOCK'', ''FEEFILTER'', ''SENDCMPCT'', ''CMPCTBLOCK'',
     ''GETBLOCKTXN'', ''BLOCKTXN'', ''GETPROOF'', ''PROOF'',
     ''CLAIM'', ''AIRDROP'', ''UNKNOWN'',
     ''INTERNAL'', ''DATA'']"

text \<open>
  Property access \<open>types[name]\<close> and array access \<open>typesByVal[code]\<close>; an absent
  property and an index past the end are \<open>undefined\<close> in the source, \<open>None\<close> here.
\<close>

definition codeOf :: "string \<Rightarrow> nat option" where
  "codeOf name = map_of types name"

definition nameOf :: "nat \<Rightarrow> string option" where
  "nameOf code = (if code < length typesByVal then Some (typesByVal ! code) else None)"


section \<open>Values and failures of the source language\<close>

type_synonym byte = "8 word"

text \<open>A \<open>Buffer\<close> is its sequence of bytes.\<close>

type_synonym buffer = "byte list"

text \<open>
  The values that reach the address record from a caller: option objects and JSON
  objects carry values of any type, and the source tests their type at run time.
  Numbers are the integers among JavaScript's numbers.
\<close>

datatype jsval =
    JUndefined
  | JNull
  | JBool bool
  | JNum (the_num: int)
  | JStr (the_str: string)
  | JBuf (the_buf: buffer)

datatype jstype = T_undefined | T_object | T_boolean | T_number | T_string

fun typeof :: "jsval \<Rightarrow> jstype" where
  "typeof JUndefined = T_undefined"
| "typeof JNull = T_object"
| "typeof (JBool b) = T_boolean"
| "typeof (JNum n) = T_number"
| "typeof (JStr s) = T_string"
| "typeof (JBuf b) = T_object"

text \<open>\<open>Buffer.isBuffer(v)\<close>.\<close>

fun isBuffer :: "jsval \<Rightarrow> bool" where
  "isBuffer (JBuf b) = True"
| "isBuffer v = False"

text \<open>
  The 32-bit operators on integers: \<open>a & b\<close> works on the operands as signed 32-bit
  words, \<open>a >>> 0\<close> reads the operand as an unsigned 32-bit word.
\<close>

definition js_bitand :: "int \<Rightarrow> int \<Rightarrow> int" where
  "js_bitand a b = sint ((word_of_int a :: 32 word) AND word_of_int b)"

definition js_ushr0 :: "int \<Rightarrow> int" where
  "js_ushr0 a = uint (word_of_int a :: 32 word)"

text \<open>The condition of \<open>if (v)\<close>: a buffer is an object, hence always true.\<close>

fun truthy :: "jsval \<Rightarrow> bool" where
  "truthy JUndefined = False"
| "truthy JNull = False"
| "truthy (JBool b) = b"
| "truthy (JNum n) = (n \<noteq> 0)"
| "truthy (JStr s) = (s \<noteq> [])"
| "truthy (JBuf b) = True"

text \<open>
  What a call can throw: a failed \<open>assert\<close> of the source, a \<open>TypeError\<close> of the
  language (a property read on \<open>undefined\<close>, \<open>new\<close> on a non-constructor), a read
  past the end of the data in the byte reader, and a rejection by the address utility.
\<close>

datatype error = AssertionError | TypeError | EncodingError | AddressError

text \<open>
  A method mutates its receiver and then returns or throws. Its model returns whether
  it threw (\<open>None\<close>: it returned) and the receiver as the call leaves it, so that a
  throw after a partial update is visible.
\<close>

type_synonym 'a effect = "error option \<times> 'a"

text \<open>
  \<open>buf[i]\<close> read from a buffer. Past the end the source gets \<open>undefined\<close>, which
  the bitwise operators and a store into another buffer both turn into 0.
\<close>

definition byte_at :: "buffer \<Rightarrow> nat \<Rightarrow> byte" where
  "byte_at buf i = (if i < length buf then buf ! i else 0)"

text \<open>\<open>buf[i] = v\<close>: a store past the end of a buffer is ignored.\<close>

definition buf_set :: "buffer \<Rightarrow> nat \<Rightarrow> byte \<Rightarrow> buffer" where
  "buf_set buf i v = (if i < length buf then buf[i := v] else buf)"

section \<open>The byte writer and reader (external collaborator \<open>bufio\<close>)\<close>

text \<open>
  Modelled from the spec: the byte writer and reader (the package \<open>bufio\<close>) are not
  among the sources. The spec (section 6) fixes their contract: fixed-width
  little-endian integers, raw byte spans and ASCII strings. A writer is the bytes
  written so far, a reader the bytes not yet read. The writer stores the low bits of
  the number it is given. A read past the end of the data throws, and a 64-bit read,
  which gives a JavaScript number, throws when the stored value exceeds \<open>2^53 - 1\<close>.
\<close>

type_synonym BufferWriter = buffer
type_synonym BufferReader = buffer

fun le_bytes :: "nat \<Rightarrow> int \<Rightarrow> buffer" where
  "le_bytes 0 n = []"
| "le_bytes (Suc k) n = word_of_int n # le_bytes k (n div 256)"

fun le_int :: "buffer \<Rightarrow> int" where
  "le_int [] = 0"
| "le_int (b # bs) = uint b + 256 * le_int bs"

definition writeU8 :: "BufferWriter \<Rightarrow> int \<Rightarrow> BufferWriter" where
  "writeU8 bw n = bw @ le_bytes 1 n"

definition writeU16 :: "BufferWriter \<Rightarrow> int \<Rightarrow> BufferWriter" where
  "writeU16 bw n = bw @ le_bytes 2 n"

definition writeU32 :: "BufferWriter \<Rightarrow> int \<Rightarrow> BufferWriter" where
  "writeU32 bw n = bw @ le_bytes 4 n"

definition writeU64 :: "BufferWriter \<Rightarrow> int \<Rightarrow> BufferWriter" where
  "writeU64 bw n = bw @ le_bytes 8 n"

definition writeBytes :: "BufferWriter \<Rightarrow> buffer \<Rightarrow> BufferWriter" where
  "writeBytes bw b = bw @ b"

definition fill :: "BufferWriter \<Rightarrow> int \<Rightarrow> nat \<Rightarrow> BufferWriter" where
  "fill bw v n = bw @ replicate n (word_of_int v)"

text \<open>\<open>writeString(s, 'ascii')\<close>: one byte per character.\<close>

definition writeString :: "BufferWriter \<Rightarrow> string \<Rightarrow> BufferWriter" where
  "writeString bw s = bw @ map (\<lambda>c. of_nat (of_char c)) s"

definition read_le :: "nat \<Rightarrow> BufferReader \<Rightarrow> error + (int \<times> BufferReader)" where
  "read_le k br =
    (if k \<le> length br then Inr (le_int (take k br), drop k br) else Inl EncodingError)"

definition readU8 :: "BufferReader \<Rightarrow> error + (int \<times> BufferReader)" where
  "readU8 br = read_le 1 br"

definition readU16 :: "BufferReader \<Rightarrow> error + (int \<times> BufferReader)" where
  "readU16 br = read_le 2 br"

definition readU32 :: "BufferReader \<Rightarrow> error + (int \<times> BufferReader)" where
  "readU32 br = read_le 4 br"

definition readU64 :: "BufferReader \<Rightarrow> error + (int \<times> BufferReader)" where
  "readU64 br =
    (case read_le 8 br of
       Inl e \<Rightarrow> Inl e
     | Inr (v, br') \<Rightarrow> if v > 2 ^ 53 - 1 then Inl EncodingError else Inr (v, br'))"

definition readBytes :: "nat \<Rightarrow> BufferReader \<Rightarrow> error + (buffer \<times> BufferReader)" where
  "readBytes n br =
    (if n \<le> length br then Inr (take n br, drop n br) else Inl EncodingError)"

definition seek :: "nat \<Rightarrow> BufferReader \<Rightarrow> error + BufferReader" where
  "seek n br = (if n \<le> length br then Inr (drop n br) else Inl EncodingError)"

text \<open>\<open>readString(n, 'ascii')\<close>: the ASCII decoder clears the high bit of every byte.\<close>

definition readString :: "nat \<Rightarrow> BufferReader \<Rightarrow> error + (string \<times> BufferReader)" where
  "readString n br =
    (case readBytes n br of
       Inl e \<Rightarrow> Inl e
     | Inr (bs, br') \<Rightarrow> Inr (map (\<lambda>b. char_of (unat (b AND 0x7f))) bs, br'))"

section \<open>The address utility (external collaborator \<open>binet\<close>)\<close>

text \<open>
  The source calls the IP utility for text conversion, hostname composition, the
  classification predicates and the network tags. It is not part of the sources, so
  every definition below takes it as a parameter. \<open>toBuffer\<close> and \<open>toHostname\<close>
  are handed the host as the source has it, a value of any type, and reject some
  arguments by throwing (\<open>None\<close>).
\<close>

record binet =
  ZERO_IPV4 :: buffer
  toBuffer :: "jsval \<Rightarrow> buffer option"
  toString :: "buffer \<Rightarrow> string"
  toHostname :: "jsval \<Rightarrow> int \<Rightarrow> buffer \<Rightarrow> string option"
  isIPv4 :: "buffer \<Rightarrow> bool"
  isRFC3964 :: "buffer \<Rightarrow> bool"
  isRFC4380 :: "buffer \<Rightarrow> bool"
  isRFC6052 :: "buffer \<Rightarrow> bool"
  isRFC6145 :: "buffer \<Rightarrow> bool"
  isLocal :: "buffer \<Rightarrow> bool"
  isRoutable :: "buffer \<Rightarrow> bool"
  isOnion :: "buffer \<Rightarrow> bool"
  networks_NONE :: int
  networks_INET4 :: int
  networks_INET6 :: int
  networks_ONION :: int

section \<open>Hexadecimal text of a buffer\<close>

text \<open>
  \<open>buf.toString('hex')\<close> writes two lower-case digits per byte.
  \<open>Buffer.from(str, 'hex')\<close> reads pairs of digits of either case and stops at the
  first pair that is not hexadecimal (a trailing single character is dropped).
\<close>

definition hex_digit :: "nat \<Rightarrow> char" where
  "hex_digit n = ''0123456789abcdef'' ! (n mod 16)"

definition hex_encode :: "buffer \<Rightarrow> string" where
  "hex_encode bs = concat (map (\<lambda>b. [hex_digit (unat b div 16), hex_digit (unat b mod 16)]) bs)"

definition hex_val :: "char \<Rightarrow> nat option" where
  "hex_val c =
    (let n = (of_char c :: nat) in
     if 48 \<le> n \<and> n \<le> 57 then Some (n - 48)
     else if 97 \<le> n \<and> n \<le> 102 then Some (n - 87)
     else if 65 \<le> n \<and> n \<le> 70 then Some (n - 55)
     else None)"

fun hex_decode :: "string \<Rightarrow> buffer" where
  "hex_decode (c # d # cs) =
    (case (hex_val c, hex_val d) of
       (Some h, Some l) \<Rightarrow> of_nat (16 * h + l) # hex_decode cs
     | _ \<Rightarrow> [])"
| "hex_decode cs = []"

section \<open>Network address record (src/lib/netaddress.js)\<close>

definition ZERO_KEY :: buffer where
  "ZERO_KEY = replicate 33 0"

text \<open>
  The fields hold what their declared types say, except \<open>host\<close>: \<open>fromJSON\<close>
  stores \<open>json.host\<close> there as it comes, without testing its type.
\<close>

record NetAddress =
  host :: jsval
  port :: int
  services :: int
  time :: int
  hostname :: string
  raw :: buffer
  key :: buffer

text \<open>\<open>new NetAddress()\<close> without options: the field initialisers of the constructor.\<close>

definition NetAddress_new :: "binet \<Rightarrow> NetAddress" where
  "NetAddress_new ip =
    \<lparr> host = JStr ''0.0.0.0'', port = 0, services = 0, time = 0, hostname = ''0.0.0.0:0'',
      raw = ZERO_IPV4 ip, key = ZERO_KEY \<rparr>"

text \<open>
  The statement \<open>this.hostname = IP.toHostname(this.host, this.port, this.key)\<close>, with
  which every mutator ends. When the utility throws, the field keeps its old value.
\<close>

definition set_hostname :: "binet \<Rightarrow> NetAddress \<Rightarrow> NetAddress effect" where
  "set_hostname ip a =
    (case toHostname ip (host a) (port a) (key a) of
       None \<Rightarrow> (Some AddressError, a)
     | Some hn \<Rightarrow> (None, a\<lparr>hostname := hn\<rparr>))"

text \<open>Sequencing: the next statements run on the receiver only if nothing was thrown.\<close>

definition and_then :: "'a effect \<Rightarrow> ('a \<Rightarrow> 'a effect) \<Rightarrow> 'a effect" where
  "and_then m f = (case m of (None, a) \<Rightarrow> f a | (Some e, a) \<Rightarrow> (Some e, a))"

subsection \<open>Injection from an options object\<close>

record NetAddressOptions =
  o_host :: jsval
  o_port :: jsval
  o_services :: jsval
  o_time :: jsval
  o_key :: jsval

definition fromOptions_services :: "NetAddressOptions \<Rightarrow> NetAddress \<Rightarrow> NetAddress effect" where
  "fromOptions_services options a =
    (if truthy (o_services options) then
       (if typeof (o_services options) \<noteq> T_number then (Some AssertionError, a)
        else (None, a\<lparr>services := the_num (o_services options)\<rparr>))
     else (None, a))"

definition fromOptions_time :: "NetAddressOptions \<Rightarrow> NetAddress \<Rightarrow> NetAddress effect" where
  "fromOptions_time options a =
    (if truthy (o_time options) then
       (if typeof (o_time options) \<noteq> T_number then (Some AssertionError, a)
        else (None, a\<lparr>time := the_num (o_time options)\<rparr>))
     else (None, a))"

definition fromOptions_key :: "NetAddressOptions \<Rightarrow> NetAddress \<Rightarrow> NetAddress effect" where
  "fromOptions_key options a =
    (if truthy (o_key options) then
       (if \<not> isBuffer (o_key options) then (Some AssertionError, a)
        else if length (the_buf (o_key options)) \<noteq> 33 then (Some AssertionError, a)
        else (None, a\<lparr>key := the_buf (o_key options)\<rparr>))
     else (None, a))"

definition NetAddress_fromOptions :: "binet \<Rightarrow> NetAddress \<Rightarrow> NetAddressOptions \<Rightarrow> NetAddress effect" where
  "NetAddress_fromOptions ip a options =
    (if typeof (o_host options) \<noteq> T_string then (Some AssertionError, a)
     else if typeof (o_port options) \<noteq> T_number then (Some AssertionError, a)
     else if \<not> (the_num (o_port options) \<ge> 0 \<and> the_num (o_port options) \<le> 0xffff)
       then (Some AssertionError, a)
     else
       (case toBuffer ip (o_host options) of
          None \<Rightarrow> (Some AddressError, a)
        | Some r \<Rightarrow>
            and_then (and_then (and_then
              (fromOptions_services options
                 (a\<lparr>raw := r, host := JStr (toString ip r), port := the_num (o_port options)\<rparr>))
              (fromOptions_time options))
              (fromOptions_key options))
              (set_hostname ip)))"

text \<open>\<open>new NetAddress(options)\<close>; \<open>None\<close> is a call without options.\<close>

definition NetAddress_constructor :: "binet \<Rightarrow> NetAddressOptions option \<Rightarrow> NetAddress effect" where
  "NetAddress_constructor ip options =
    (case options of
       None \<Rightarrow> (None, NetAddress_new ip)
     | Some opts \<Rightarrow> NetAddress_fromOptions ip (NetAddress_new ip) opts)"

subsection \<open>Predicates and comparison\<close>

definition hasKey :: "NetAddress \<Rightarrow> bool" where
  "hasKey a = (key a \<noteq> ZERO_KEY)"

text \<open>
  \<open>Buffer.prototype.compare\<close>: \<open>-1\<close>, \<open>0\<close> or \<open>1\<close> by the first byte that differs
  (bytes as unsigned numbers), a proper prefix coming first.
\<close>

fun buffer_compare :: "buffer \<Rightarrow> buffer \<Rightarrow> int" where
  "buffer_compare [] [] = 0"
| "buffer_compare [] (y # ys) = - 1"
| "buffer_compare (x # xs) [] = 1"
| "buffer_compare (x # xs) (y # ys) =
    (if x < y then - 1 else if y < x then 1 else buffer_compare xs ys)"

definition compare :: "NetAddress \<Rightarrow> NetAddress \<Rightarrow> int" where
  "compare a addr =
    (let cmp = buffer_compare (raw a) (raw addr)
     in if cmp \<noteq> 0 then cmp else port a - port addr)"

definition equal :: "NetAddress \<Rightarrow> NetAddress \<Rightarrow> bool" where
  "equal a addr = (compare a addr = 0)"

subsection \<open>Mutators\<close>

definition setNull :: "binet \<Rightarrow> NetAddress \<Rightarrow> NetAddress effect" where
  "setNull ip a = set_hostname ip (a\<lparr>raw := ZERO_IPV4 ip, host := JStr ''0.0.0.0'', key := ZERO_KEY\<rparr>)"

definition setHost :: "binet \<Rightarrow> NetAddress \<Rightarrow> jsval \<Rightarrow> NetAddress effect" where
  "setHost ip a h =
    (case toBuffer ip h of
       None \<Rightarrow> (Some AddressError, a)
     | Some r \<Rightarrow> set_hostname ip (a\<lparr>raw := r, host := JStr (toString ip r)\<rparr>))"

definition setPort :: "binet \<Rightarrow> NetAddress \<Rightarrow> int \<Rightarrow> NetAddress effect" where
  "setPort ip a p =
    (if \<not> (p \<ge> 0 \<and> p \<le> 0xffff) then (Some AssertionError, a)
     else set_hostname ip (a\<lparr>port := p\<rparr>))"

text \<open>\<open>setKey\<close>: \<open>key == null\<close> holds of \<open>null\<close> and of \<open>undefined\<close>.\<close>

definition setKey :: "binet \<Rightarrow> NetAddress \<Rightarrow> jsval \<Rightarrow> NetAddress effect" where
  "setKey ip a k0 =
    (let k = (if k0 = JNull \<or> k0 = JUndefined then JBuf ZERO_KEY else k0)
     in if \<not> (isBuffer k \<and> length (the_buf k) = 33) then (Some AssertionError, a)
        else set_hostname ip (a\<lparr>key := the_buf k\<rparr>))"

definition DEFAULT_SERVICES :: int where
  "DEFAULT_SERVICES = 0"

text \<open>\<open>fromHost\<close>; \<open>now\<close> is the value of \<open>Date.now()\<close> at the call.\<close>

definition fromHost :: "binet \<Rightarrow> int \<Rightarrow> NetAddress \<Rightarrow> jsval \<Rightarrow> int \<Rightarrow> jsval \<Rightarrow> NetAddress effect" where
  "fromHost ip now a h p k =
    (if \<not> (p \<ge> 0 \<and> p \<le> 0xffff) then (Some AssertionError, a)
     else if \<not> (\<not> truthy k \<or> isBuffer k) then (Some AssertionError, a)
     else if \<not> (\<not> truthy k \<or> length (the_buf k) = 33) then (Some AssertionError, a)
     else
       (case toBuffer ip h of
          None \<Rightarrow> (Some AddressError, a)
        | Some r \<Rightarrow>
            set_hostname ip
              (a\<lparr>raw := r, host := JStr (toString ip r), port := p, services := DEFAULT_SERVICES,
                 time := now, key := (if truthy k then the_buf k else ZERO_KEY)\<rparr>)))"

text \<open>\<open>NetAddress.fromHost(host, port, key)\<close>, the static factory.\<close>

definition NetAddress_fromHost :: "binet \<Rightarrow> int \<Rightarrow> jsval \<Rightarrow> int \<Rightarrow> jsval \<Rightarrow> NetAddress effect" where
  "NetAddress_fromHost ip now h p k = fromHost ip now (NetAddress_new ip) h p k"

subsection \<open>Serialisation\<close>

definition NetAddress_getSize :: "NetAddress \<Rightarrow> nat" where
  "NetAddress_getSize a = 88"

definition NetAddress_write :: "BufferWriter \<Rightarrow> NetAddress \<Rightarrow> BufferWriter" where
  "NetAddress_write bw a =
    writeBytes (writeU16 (fill (writeBytes (writeU8 (writeU32 (writeU32 (writeU64 bw
      (time a)) (services a)) 0) 0) (raw a)) 0 20) (port a)) (key a)"

text \<open>
  \<open>read\<close> assigns the fields as it goes, so the receiver is returned as far as it got
  assigned when a read throws. The part after the branch on the format byte:
\<close>

definition NetAddress_read_tail :: "binet \<Rightarrow> NetAddress \<Rightarrow> BufferReader \<Rightarrow> error option \<times> NetAddress \<times> BufferReader" where
  "NetAddress_read_tail ip a br =
    (case readU16 br of
       Inl e \<Rightarrow> (Some e, a, br)
     | Inr (p, br1) \<Rightarrow>
        (case readBytes 33 br1 of
           Inl e \<Rightarrow> (Some e, a\<lparr>port := p\<rparr>, br1)
         | Inr (k, br2) \<Rightarrow>
            (case set_hostname ip (a\<lparr>port := p, key := k, host := JStr (toString ip (raw a))\<rparr>) of
               (e, a') \<Rightarrow> (e, a', br2))))"

definition NetAddress_read :: "binet \<Rightarrow> NetAddress \<Rightarrow> BufferReader \<Rightarrow> error option \<times> NetAddress \<times> BufferReader" where
  "NetAddress_read ip a br =
    (case readU64 br of
       Inl e \<Rightarrow> (Some e, a, br)
     | Inr (t, br1) \<Rightarrow>
    (case readU32 br1 of
       Inl e \<Rightarrow> (Some e, a\<lparr>time := t\<rparr>, br1)
     | Inr (s, br2) \<Rightarrow>
    (case readU32 br2 of
       Inl e \<Rightarrow> (Some e, a\<lparr>time := t, services := s\<rparr>, br2)
     | Inr (hi, br3) \<Rightarrow>
    (case readU8 br3 of
       Inl e \<Rightarrow> (Some e, a\<lparr>time := t, services := s\<rparr>, br3)
     | Inr (d, br4) \<Rightarrow>
        if d = 0 then
          (case readBytes 16 br4 of
             Inl e \<Rightarrow> (Some e, a\<lparr>time := t, services := s\<rparr>, br4)
           | Inr (r, br5) \<Rightarrow>
              (case seek 20 br5 of
                 Inl e \<Rightarrow> (Some e, a\<lparr>time := t, services := s, raw := r\<rparr>, br5)
               | Inr br6 \<Rightarrow>
                   NetAddress_read_tail ip (a\<lparr>time := t, services := s, raw := r\<rparr>) br6))
        else
          (case seek 36 br4 of
             Inl e \<Rightarrow> (Some e, a\<lparr>time := t, services := s, raw := replicate 16 0\<rparr>, br4)
           | Inr br6 \<Rightarrow>
               NetAddress_read_tail ip (a\<lparr>time := t, services := s, raw := replicate 16 0\<rparr>) br6)))))"

text \<open>\<open>NetAddress.read(br)\<close>, the static decoder: \<open>new this().read(br)\<close>.\<close>

definition NetAddress_static_read :: "binet \<Rightarrow> BufferReader \<Rightarrow> error option \<times> NetAddress \<times> BufferReader" where
  "NetAddress_static_read ip br = NetAddress_read ip (NetAddress_new ip) br"

subsection \<open>JSON\<close>

record NetAddressJSON =
  j_host :: jsval
  j_port :: jsval
  j_services :: jsval
  j_time :: jsval
  j_key :: jsval

definition getJSON :: "NetAddress \<Rightarrow> NetAddressJSON" where
  "getJSON a =
    \<lparr> j_host = host a, j_port = JNum (port a), j_services = JNum (services a),
      j_time = JNum (time a), j_key = JStr (hex_encode (key a)) \<rparr>"

text \<open>
  \<open>fromJSON\<close>. An assertion \<open>(x & 0xffff) === x\<close> or \<open>(x >>> 0) === x\<close> compares a
  number with \<open>x\<close>, so it fails when \<open>x\<close> is not a number. \<open>json.host\<close> goes to
  \<open>IP.toBuffer\<close> and into the field \<open>host\<close> as it is, and the decoded key goes
  into the field \<open>key\<close> whatever its length.
\<close>

definition fromJSON :: "binet \<Rightarrow> NetAddress \<Rightarrow> NetAddressJSON \<Rightarrow> NetAddress effect" where
  "fromJSON ip a json =
    (if \<not> (typeof (j_port json) = T_number
            \<and> js_bitand (the_num (j_port json)) 0xffff = the_num (j_port json))
       then (Some AssertionError, a)
     else if \<not> (typeof (j_services json) = T_number
                 \<and> js_ushr0 (the_num (j_services json)) = the_num (j_services json))
       then (Some AssertionError, a)
     else if \<not> (typeof (j_time json) = T_number
                 \<and> js_ushr0 (the_num (j_time json)) = the_num (j_time json))
       then (Some AssertionError, a)
     else if typeof (j_key json) \<noteq> T_string then (Some AssertionError, a)
     else
       (case toBuffer ip (j_host json) of
          None \<Rightarrow> (Some AddressError, a)
        | Some r \<Rightarrow>
            set_hostname ip
              (a\<lparr>raw := r, host := j_host json, port := the_num (j_port json),
                 services := the_num (j_services json), time := the_num (j_time json),
                 key := hex_decode (the_str (j_key json))\<rparr>)))"

subsection \<open>Group key\<close>

text \<open>
  The \<open>if\<close> chain of \<open>groupKey\<close>. It either returns at once (the RFC4380 branch,
  \<open>Inl\<close> of the returned buffer) or leaves \<open>(type, start, bits)\<close> for the copy that
  follows. \<open>start\<close> is 0 and \<open>bits\<close> is 16 unless a branch assigns them.
\<close>

definition groupKey_select :: "binet \<Rightarrow> buffer \<Rightarrow> buffer + (int \<times> nat \<times> nat)" where
  "groupKey_select ip r =
    (if isLocal ip r then Inr (255, 0, 0)
     else if \<not> isRoutable ip r then Inr (networks_NONE ip, 0, 0)
     else if isIPv4 ip r \<or> isRFC6145 ip r \<or> isRFC6052 ip r then Inr (networks_INET4 ip, 12, 16)
     else if isRFC3964 ip r then Inr (networks_INET4 ip, 2, 16)
     else if isRFC4380 ip r then
       Inl (buf_set (buf_set (buf_set (replicate 3 0) 0 (word_of_int (networks_INET4 ip)))
              1 (byte_at r 12 XOR 0xff)) 2 (byte_at r 13 XOR 0xff))
     else if isOnion ip r then Inr (networks_ONION ip, 6, 4)
     else if byte_at r 0 = 0x20 \<and> byte_at r 1 = 0x01
           \<and> byte_at r 2 = 0x04 \<and> byte_at r 3 = 0x70
       then Inr (networks_INET6 ip, 0, 36)
     else Inr (networks_INET6 ip, 0, 32))"

text \<open>
  The loop \<open>while (bits >= 8) { out[i++] = raw[start++]; bits -= 8; }\<close> on the
  state \<open>(out, i, start, bits)\<close>.
\<close>

function groupKey_loop :: "buffer \<Rightarrow> buffer \<Rightarrow> nat \<Rightarrow> nat \<Rightarrow> nat \<Rightarrow> buffer \<times> nat \<times> nat \<times> nat" where
  "groupKey_loop r out i start bits =
    (if bits \<ge> 8
     then groupKey_loop r (buf_set out i (byte_at r start)) (i + 1) (start + 1) (bits - 8)
     else (out, i, start, bits))"
  by pat_completeness auto
termination
  by (relation "measure (\<lambda>(r, out, i, start, bits). bits)") auto

declare groupKey_loop.simps [simp del]

text \<open>
  The rest of \<open>groupKey\<close>: allocate \<open>1 + ((bits + 7) >>> 3)\<close> zero bytes, store the
  type, run the loop, store the partial byte when bits are left, and assert that the
  buffer is full.
\<close>

definition groupKey_copy :: "buffer \<Rightarrow> int \<Rightarrow> nat \<Rightarrow> nat \<Rightarrow> error + buffer" where
  "groupKey_copy r type start bits =
    (let out0 = replicate (1 + drop_bit 3 (bits + 7)) 0;
         out1 = buf_set out0 0 (word_of_int type);
         (out2, i2, start2, bits2) = groupKey_loop r out1 1 start bits;
         (out3, i3) =
           (if bits2 > 0
            then (buf_set out2 i2 (byte_at r start2 OR (push_bit (8 - bits2) 1 - 1)), i2 + 1)
            else (out2, i2))
     in if i3 = length out3 then Inr out3 else Inl AssertionError)"

definition groupKey :: "binet \<Rightarrow> NetAddress \<Rightarrow> error + buffer" where
  "groupKey ip addr =
    (case groupKey_select ip (raw addr) of
       Inl buf \<Rightarrow> Inr buf
     | Inr (type, start, bits) \<Rightarrow> groupKey_copy (raw addr) type start bits)"


section \<open>Version packet (src/lib/packets.js)\<close>

text \<open>
  The object literal \<open>common\<close> of packets.js, and the read of a property of it: a
  property the literal does not have is \<open>undefined\<close>.
\<close>

definition common :: "(string \<times> jsval) list" where
  "common = [(''PROTOCOL_VERSION'', JNum 70015), (''LOCAL_SERVICES'', JNum 0)]"

definition get_prop :: "(string \<times> jsval) list \<Rightarrow> string \<Rightarrow> jsval" where
  "get_prop obj name = (case map_of obj name of Some v \<Rightarrow> v | None \<Rightarrow> JUndefined)"

text \<open>
  The fields hold what their declared types say, except that \<open>nonce\<close> and \<open>agent\<close>
  can also hold \<open>undefined\<close> (\<open>None\<close>): the constructor assigns them from \<open>common\<close>.
\<close>

definition as_buffer :: "jsval \<Rightarrow> buffer option" where
  "as_buffer v = (case v of JBuf b \<Rightarrow> Some b | _ \<Rightarrow> None)"

definition as_string :: "jsval \<Rightarrow> string option" where
  "as_string v = (case v of JStr s \<Rightarrow> Some s | _ \<Rightarrow> None)"

record VersionPacket =
  v_type :: nat
  version :: int
  v_services :: int
  v_time :: int
  remote :: NetAddress
  nonce :: "buffer option"
  agent :: "string option"
  height :: int
  noRelay :: bool

text \<open>
  packets.js binds the name \<open>NetAddress\<close> by
  \<open>const {NetAddress} = require('./netaddress')\<close>: to the property \<open>NetAddress\<close> of
  what netaddress.js exports. That module exports the class itself
  (\<open>module.exports = NetAddress\<close>), which has no static member of that name, so the
  name is bound to \<open>undefined\<close> (\<open>None\<close>), not to the class (\<open>Some\<close> of its
  constructor without options).
\<close>

definition packets_NetAddress :: "(binet \<Rightarrow> NetAddress) option" where
  "packets_NetAddress = None"

record VersionPacketOptions =
  vo_version :: "int option"
  vo_services :: "int option"
  vo_time :: "int option"
  vo_remote :: "NetAddressOptions option"
  vo_nonce :: "buffer option"
  vo_agent :: "string option"
  vo_height :: "int option"
  vo_noRelay :: "bool option"

text \<open>
  \<open>fromOptions\<close>: an absent option is \<open>None\<close>. \<open>options.x != null\<close> holds of every
  present value; \<open>if (options.agent)\<close> fails on the empty string as well.
\<close>

definition VersionPacket_fromOptions :: "binet \<Rightarrow> VersionPacket \<Rightarrow> VersionPacketOptions \<Rightarrow> VersionPacket effect" where
  "VersionPacket_fromOptions ip p options =
    (let p1 = (case vo_version options of Some n \<Rightarrow> p\<lparr>version := n\<rparr> | None \<Rightarrow> p);
         p2 = (case vo_services options of Some n \<Rightarrow> p1\<lparr>v_services := n\<rparr> | None \<Rightarrow> p1);
         p3 = (case vo_time options of Some n \<Rightarrow> p2\<lparr>v_time := n\<rparr> | None \<Rightarrow> p2);
         (e, r) = (case vo_remote options of
                     Some ro \<Rightarrow> NetAddress_fromOptions ip (remote p3) ro
                   | None \<Rightarrow> (None, remote p3));
         p4 = p3\<lparr>remote := r\<rparr>
     in case e of
          Some err \<Rightarrow> (Some err, p4)
        | None \<Rightarrow>
           (let p5 = (case vo_nonce options of Some b \<Rightarrow> p4\<lparr>nonce := Some b\<rparr> | None \<Rightarrow> p4);
                p6 = (case vo_agent options of
                        Some a \<Rightarrow> if a \<noteq> [] then p5\<lparr>agent := Some a\<rparr> else p5
                      | None \<Rightarrow> p5);
                p7 = (case vo_height options of Some n \<Rightarrow> p6\<lparr>height := n\<rparr> | None \<Rightarrow> p6);
                p8 = (case vo_noRelay options of Some b \<Rightarrow> p7\<lparr>noRelay := b\<rparr> | None \<Rightarrow> p7)
            in (None, p8)))"

text \<open>
  \<open>new VersionPacket(options)\<close>. \<open>cls\<close> is the value bound to the name
  \<open>NetAddress\<close> in packets.js, \<open>now\<close> the value of \<open>Date.now()\<close>. \<open>new\<close> on
  \<open>undefined\<close> throws a \<open>TypeError\<close>.
\<close>

definition VersionPacket_constructor :: "binet \<Rightarrow> (binet \<Rightarrow> NetAddress) option \<Rightarrow> int \<Rightarrow> VersionPacketOptions option \<Rightarrow> error + VersionPacket" where
  "VersionPacket_constructor ip cls now options =
    (case cls of
       None \<Rightarrow> Inl TypeError
     | Some new_NetAddress \<Rightarrow>
        (let p = \<lparr> v_type = the (map_of types ''VERSION''),
                   version = the_num (get_prop common ''PROTOCOL_VERSION''),
                   v_services = the_num (get_prop common ''LOCAL_SERVICES''),
                   v_time = now,
                   remote = new_NetAddress ip,
                   nonce = as_buffer (get_prop common ''ZERO_NONCE''),
                   agent = as_string (get_prop common ''USER_AGENT''),
                   height = 0,
                   noRelay = False \<rparr>
         in case options of
              None \<Rightarrow> Inr p
            | Some opts \<Rightarrow>
               (case VersionPacket_fromOptions ip p opts of
                  (Some e, p') \<Rightarrow> Inl e
                | (None, p') \<Rightarrow> Inr p')))"

text \<open>\<open>getSize\<close>: \<open>this.agent.length\<close> throws a \<open>TypeError\<close> on \<open>undefined\<close>.\<close>

definition VersionPacket_getSize :: "VersionPacket \<Rightarrow> error + nat" where
  "VersionPacket_getSize p =
    (case agent p of
       None \<Rightarrow> Inl TypeError
     | Some a \<Rightarrow> Inr (0 + 20 + NetAddress_getSize (remote p) + 8 + 1 + length a + 5))"

text \<open>\<open>write\<close>: writing \<open>undefined\<close> as bytes, and its \<open>length\<close>, throw.\<close>

definition VersionPacket_write :: "BufferWriter \<Rightarrow> VersionPacket \<Rightarrow> error + BufferWriter" where
  "VersionPacket_write bw p =
    (let bw1 = NetAddress_write
                 (writeU64 (writeU32 (writeU32 (writeU32 bw (version p)) (v_services p)) 0) (v_time p))
                 (remote p)
     in case nonce p of
          None \<Rightarrow> Inl TypeError
        | Some n \<Rightarrow>
           (case agent p of
              None \<Rightarrow> Inl TypeError
            | Some a \<Rightarrow>
               Inr (writeU8 (writeU32 (writeString (writeU8 (writeBytes bw1 n) (int (length a))) a)
                      (height p)) (if noRelay p then 1 else 0))))"

definition VersionPacket_read :: "binet \<Rightarrow> VersionPacket \<Rightarrow> BufferReader \<Rightarrow> error option \<times> VersionPacket \<times> BufferReader" where
  "VersionPacket_read ip p br =
    (case readU32 br of
       Inl e \<Rightarrow> (Some e, p, br)
     | Inr (v, br1) \<Rightarrow>
    (case readU32 br1 of
       Inl e \<Rightarrow> (Some e, p\<lparr>version := v\<rparr>, br1)
     | Inr (s, br2) \<Rightarrow>
    (case readU32 br2 of
       Inl e \<Rightarrow> (Some e, p\<lparr>version := v, v_services := s\<rparr>, br2)
     | Inr (hi, br3) \<Rightarrow>
    (case readU64 br3 of
       Inl e \<Rightarrow> (Some e, p\<lparr>version := v, v_services := s\<rparr>, br3)
     | Inr (t, br4) \<Rightarrow>
    (case NetAddress_read ip (remote p) br4 of
       (Some e, r, br5) \<Rightarrow> (Some e, p\<lparr>version := v, v_services := s, v_time := t, remote := r\<rparr>, br5)
     | (None, r, br5) \<Rightarrow>
    (case readBytes 8 br5 of
       Inl e \<Rightarrow> (Some e, p\<lparr>version := v, v_services := s, v_time := t, remote := r\<rparr>, br5)
     | Inr (n, br6) \<Rightarrow>
    (case readU8 br6 of
       Inl e \<Rightarrow> (Some e, p\<lparr>version := v, v_services := s, v_time := t, remote := r,
                            nonce := Some n\<rparr>, br6)
     | Inr (len, br7) \<Rightarrow>
    (case readString (nat len) br7 of
       Inl e \<Rightarrow> (Some e, p\<lparr>version := v, v_services := s, v_time := t, remote := r,
                            nonce := Some n\<rparr>, br7)
     | Inr (a, br8) \<Rightarrow>
    (case readU32 br8 of
       Inl e \<Rightarrow> (Some e, p\<lparr>version := v, v_services := s, v_time := t, remote := r,
                            nonce := Some n, agent := Some a\<rparr>, br8)
     | Inr (h, br9) \<Rightarrow>
    (case readU8 br9 of
       Inl e \<Rightarrow> (Some e, p\<lparr>version := v, v_services := s, v_time := t, remote := r,
                            nonce := Some n, agent := Some a, height := h\<rparr>, br9)
     | Inr (f, br10) \<Rightarrow>
        (None, p\<lparr>version := v, v_services := s, v_time := t, remote := r,
                 nonce := Some n, agent := Some a, height := h, noRelay := (f = 1)\<rparr>, br10)))))))))))"

text \<open>
  Modelled from the spec: the type-level \<open>decode\<close> is inherited from the base class
  of the byte library, which is not among the sources. The spec (section 4.2) says
  what it does: it constructs a default instance of the variant and applies \<open>read\<close>
  to it. The result is the instance, or what the constructor or \<open>read\<close> threw.
\<close>

definition VersionPacket_decode :: "binet \<Rightarrow> (binet \<Rightarrow> NetAddress) option \<Rightarrow> int \<Rightarrow> buffer \<Rightarrow> error + VersionPacket" where
  "VersionPacket_decode ip cls now data =
    (case VersionPacket_constructor ip cls now None of
       Inl e \<Rightarrow> Inl e
     | Inr p0 \<Rightarrow>
        (case VersionPacket_read ip p0 data of
           (Some e, p, br) \<Rightarrow> Inl e
         | (None, p, br) \<Rightarrow> Inr p))"

section \<open>Well-formed instances\<close>

text \<open>
  The derived field agrees with its sources: the hostname is what the utility composes
  from the current host, port and key.
\<close>

definition hostname_consistent :: "binet \<Rightarrow> NetAddress \<Rightarrow> bool" where
  "hostname_consistent ip a = (toHostname ip (host a) (port a) (key a) = Some (hostname a))"

text \<open>
  A valid address record: the numeric fields fit their wire widths (the time is a
  JavaScript number, an integer up to \<open>2^53 - 1\<close>), the raw address has 16 bytes, the
  key 33, and the derived fields are the text of the raw address and the hostname the
  utility composes from host, port and key.
\<close>

definition valid_NetAddress :: "binet \<Rightarrow> NetAddress \<Rightarrow> bool" where
  "valid_NetAddress ip a =
    (0 \<le> time a \<and> time a \<le> 2 ^ 53 - 1
     \<and> 0 \<le> services a \<and> services a < 2 ^ 32
     \<and> 0 \<le> port a \<and> port a \<le> 0xffff
     \<and> length (raw a) = 16
     \<and> length (key a) = 33
     \<and> host a = JStr (toString ip (raw a))
     \<and> toHostname ip (host a) (port a) (key a) = Some (hostname a))"

text \<open>
  A valid version packet: its type is VERSION, the numbers fit their wire widths, the
  remote address is valid, the nonce has 8 bytes, and the agent is an ASCII string of
  at most 255 characters.
\<close>

definition valid_VersionPacket :: "binet \<Rightarrow> VersionPacket \<Rightarrow> bool" where
  "valid_VersionPacket ip p =
    (codeOf ''VERSION'' = Some (v_type p)
     \<and> 0 \<le> version p \<and> version p < 2 ^ 32
     \<and> 0 \<le> v_services p \<and> v_services p < 2 ^ 32
     \<and> 0 \<le> v_time p \<and> v_time p \<le> 2 ^ 53 - 1
     \<and> valid_NetAddress ip (remote p)
     \<and> (case nonce p of Some n \<Rightarrow> length n = 8 | None \<Rightarrow> False)
     \<and> (case agent p of
           Some a \<Rightarrow> length a \<le> 255 \<and> list_all (\<lambda>c. (of_char c :: nat) < 128) a
         | None \<Rightarrow> False)
     \<and> 0 \<le> height p \<and> height p < 2 ^ 32)"

section \<open>A reference instance of the address utility\<close>

text \<open>
  An instance of the collaborator on which the definitions can be run. The predicates
  test the address prefixes of the RFCs they are named after, and the tags are those
  of the utility. A host that is not a string is rejected. The text conversions cover
  IPv4 in dotted-quad form: other text is rejected, and other addresses print as full
  hexadecimal groups. The hostname is
  \<open>host:port\<close>, with the host in brackets when it contains a colon and with the key
  in front, in hexadecimal here, when the key is not the zero key; an empty host, a
  port out of range and a key that is not 33 bytes long are rejected. Every general
  theorem below holds for any instance; this one supplies the concrete runs.
\<close>

definition has_prefix :: "buffer \<Rightarrow> buffer \<Rightarrow> bool" where
  "has_prefix r p = (take (length p) r = p)"

definition IPV4_PREFIX :: buffer where
  "IPV4_PREFIX = [0, 0, 0, 0, 0, 0, 0, 0, 0, 0, 0xff, 0xff]"

fun dec_str :: "nat \<Rightarrow> string" where
  "dec_str n =
    (if n < 10 then [''0123456789'' ! n]
     else dec_str (n div 10) @ [''0123456789'' ! (n mod 10)])"

declare dec_str.simps [simp del]

definition dec_val :: "string \<Rightarrow> nat option" where
  "dec_val s =
    (if s = [] then None
     else fold (\<lambda>c acc.
            (let n = (of_char c :: nat) in
             case acc of
               None \<Rightarrow> None
             | Some a \<Rightarrow> if 48 \<le> n \<and> n \<le> 57 then Some (10 * a + (n - 48)) else None))
          s (Some 0))"

fun split_dot :: "string \<Rightarrow> string list" where
  "split_dot [] = [[]]"
| "split_dot (c # cs) =
    (if c = CHR ''.'' then [] # split_dot cs
     else (case split_dot cs of w # ws \<Rightarrow> (c # w) # ws | [] \<Rightarrow> [[c]]))"

definition ref_parse :: "string \<Rightarrow> buffer option" where
  "ref_parse s =
    (case map dec_val (split_dot s) of
       [Some a, Some b, Some c, Some d] \<Rightarrow>
         if a \<le> 255 \<and> b \<le> 255 \<and> c \<le> 255 \<and> d \<le> 255
         then Some (IPV4_PREFIX @ [of_nat a, of_nat b, of_nat c, of_nat d])
         else None
     | _ \<Rightarrow> None)"

definition ref_toBuffer :: "jsval \<Rightarrow> buffer option" where
  "ref_toBuffer v = (if typeof v \<noteq> T_string then None else ref_parse (the_str v))"

fun hex_groups :: "buffer \<Rightarrow> string list" where
  "hex_groups (a # b # bs) = hex_encode [a, b] # hex_groups bs"
| "hex_groups bs = []"

fun join_with :: "char \<Rightarrow> string list \<Rightarrow> string" where
  "join_with c [] = []"
| "join_with c [w] = w"
| "join_with c (w # ws) = w @ c # join_with c ws"

definition ref_toString :: "buffer \<Rightarrow> string" where
  "ref_toString r =
    (if has_prefix r IPV4_PREFIX \<and> length r = 16
     then join_with (CHR ''.'') (map (\<lambda>b. dec_str (unat b)) (drop 12 r))
     else join_with (CHR '':'') (hex_groups r))"

definition ref_compose :: "string \<Rightarrow> int \<Rightarrow> buffer \<Rightarrow> string option" where
  "ref_compose h p k =
    (if h = [] \<or> p < 0 \<or> p > 65535 \<or> length k \<noteq> 33 then None
     else Some ((if k = ZERO_KEY then [] else hex_encode k @ ''@'')
                @ (if CHR '':'' \<in> set h then ''['' @ h @ '']'' else h)
                @ '':'' @ dec_str (nat p)))"

definition ref_toHostname :: "jsval \<Rightarrow> int \<Rightarrow> buffer \<Rightarrow> string option" where
  "ref_toHostname v p k = (if typeof v \<noteq> T_string then None else ref_compose (the_str v) p k)"

definition ref_isIPv4 :: "buffer \<Rightarrow> bool" where
  "ref_isIPv4 r = has_prefix r IPV4_PREFIX"

definition ref_isRFC3964 :: "buffer \<Rightarrow> bool" where
  "ref_isRFC3964 r = has_prefix r [0x20, 0x02]"

definition ref_isRFC4380 :: "buffer \<Rightarrow> bool" where
  "ref_isRFC4380 r = has_prefix r [0x20, 0x01, 0x00, 0x00]"

definition ref_isRFC6052 :: "buffer \<Rightarrow> bool" where
  "ref_isRFC6052 r = has_prefix r [0, 0x64, 0xff, 0x9b, 0, 0, 0, 0, 0, 0, 0, 0]"

definition ref_isRFC6145 :: "buffer \<Rightarrow> bool" where
  "ref_isRFC6145 r = has_prefix r [0, 0, 0, 0, 0, 0, 0, 0, 0xff, 0xff, 0, 0]"

definition ref_isOnion :: "buffer \<Rightarrow> bool" where
  "ref_isOnion r = has_prefix r [0xfd, 0x87, 0xd8, 0x7e, 0xeb, 0x43]"

definition ref_isLocal :: "buffer \<Rightarrow> bool" where
  "ref_isLocal r =
    ((ref_isIPv4 r \<and> (byte_at r 12 = 127 \<or> byte_at r 12 = 0))
     \<or> r = replicate 15 0 @ [1])"

definition ref_isPrivate :: "buffer \<Rightarrow> bool" where
  "ref_isPrivate r =
    ((ref_isIPv4 r \<and>
        (byte_at r 12 = 10
         \<or> (byte_at r 12 = 192 \<and> byte_at r 13 = 168)
         \<or> (byte_at r 12 = 172 \<and> 16 \<le> byte_at r 13 \<and> byte_at r 13 \<le> 31)
         \<or> (byte_at r 12 = 169 \<and> byte_at r 13 = 254)))
     \<or> has_prefix r [0xfe, 0x80, 0, 0, 0, 0, 0, 0]
     \<or> (byte_at r 0 AND 0xfe = 0xfc \<and> \<not> ref_isOnion r))"

definition ref_isRoutable :: "buffer \<Rightarrow> bool" where
  "ref_isRoutable r =
    (length r = 16 \<and> r \<noteq> replicate 16 0 \<and> \<not> ref_isPrivate r \<and> \<not> ref_isLocal r)"

definition binet_ref :: "unit binet_scheme" where
  "binet_ref =
    \<lparr> ZERO_IPV4 = IPV4_PREFIX @ [0, 0, 0, 0],
      toBuffer = ref_toBuffer,
      toString = ref_toString,
      toHostname = ref_toHostname,
      isIPv4 = ref_isIPv4,
      isRFC3964 = ref_isRFC3964,
      isRFC4380 = ref_isRFC4380,
      isRFC6052 = ref_isRFC6052,
      isRFC6145 = ref_isRFC6145,
      isLocal = ref_isLocal,
      isRoutable = ref_isRoutable,
      isOnion = ref_isOnion,
      networks_NONE = 0,
      networks_INET4 = 1,
      networks_INET6 = 2,
      networks_ONION = 3 \<rparr>"

section \<open>Example inputs\<close>

text \<open>A Teredo address (2001:0::/32) with the bytes 0x01, 0x02 at offsets 12 and 13.\<close>

definition teredo_raw :: buffer where
  "teredo_raw = [0x20, 0x01, 0x00, 0x00, 0x4a, 0x7d, 0x2b, 0x63, 0, 0, 0, 0, 0x01, 0x02, 0xfc, 0xfd]"

text \<open>An address of the provider block 2001:470::/32, which takes the 36-bit branch.\<close>

definition he_raw :: buffer where
  "he_raw = [0x20, 0x01, 0x04, 0x70, 0xab, 0xcd, 0, 0, 0, 0, 0, 0, 0, 0, 0, 0x01]"

text \<open>A record around a raw address, for running the classifier.\<close>

definition addr_of_raw :: "buffer \<Rightarrow> NetAddress" where
  "addr_of_raw r = \<lparr> host = JStr [], port = 0, services = 0, time = 0, hostname = [], raw = r, key = ZERO_KEY \<rparr>"

text \<open>
  The record for host 127.0.0.1, port 8333, without a key, and the version packet of
  the spec's round-trip example around it.
\<close>

definition example_remote :: NetAddress where
  "example_remote =
    \<lparr> host = JStr ''127.0.0.1'', port = 8333, services = 0, time = 1700000000,
      hostname = ''127.0.0.1:8333'',
      raw = [0, 0, 0, 0, 0, 0, 0, 0, 0, 0, 0xff, 0xff, 127, 0, 0, 1], key = ZERO_KEY \<rparr>"

definition example_packet :: VersionPacket where
  "example_packet =
    \<lparr> v_type = 0, version = 70015, v_services = 1, v_time = 1000000,
      remote = example_remote, nonce = Some [1, 2, 3, 4, 5, 6, 7, 8],
      agent = Some ''test-agent'', height = 42, noRelay = True \<rparr>"

text \<open>An instance of the variant to read into.\<close>

definition blank_packet :: VersionPacket where
  "blank_packet =
    \<lparr> v_type = 0, version = 0, v_services = 0, v_time = 0,
      remote = NetAddress_new binet_ref, nonce = None, agent = None,
      height = 0, noRelay = False \<rparr>"

text \<open>Options that set a nonce of 4 bytes, and options with a key of 2 bytes.\<close>

definition short_nonce_options :: VersionPacketOptions where
  "short_nonce_options =
    \<lparr> vo_version = None, vo_services = None, vo_time = None, vo_remote = None,
      vo_nonce = Some [1, 2, 3, 4], vo_agent = None, vo_height = None, vo_noRelay = None \<rparr>"

definition bad_key_options :: NetAddressOptions where
  "bad_key_options =
    \<lparr> o_host = JStr ''1.2.3.4'', o_port = JNum 5, o_services = JUndefined,
      o_time = JUndefined, o_key = JBuf [1, 2] \<rparr>"

text \<open>
  The record that \<open>NetAddress.fromHost('127.0.0.1', 8333)\<close> makes when
  \<open>Date.now()\<close> is 1700000000000 milliseconds.
\<close>

definition ms_remote :: NetAddress where
  "ms_remote = example_remote\<lparr>time := 1700000000000\<rparr>"

section \<open>Packet type registry: properties\<close>

lemma types_zip: "types = zip typesByVal [0..<33]"
  by (simp add: types_def typesByVal_def upt_rec)

lemma typesByVal_distinct: "distinct typesByVal"
  by (simp add: typesByVal_def)

lemma typesByVal_length: "length typesByVal = 33"
  by (simp add: typesByVal_def)

lemma codeOf_nth: "i < 33 \<Longrightarrow> codeOf (typesByVal ! i) = Some i"
proof -
  assume i: "i < 33"
  have "map_of (zip typesByVal [0..<33]) (typesByVal ! i) = Some ([0..<33] ! i)"
    using i typesByVal_distinct typesByVal_length
    by (intro map_of_zip_nth) simp_all
  then show ?thesis using i by (simp add: codeOf_def types_zip del: upt_Suc)
qed

lemma codeOf_Some: "codeOf n = Some c \<Longrightarrow> c < 33 \<and> typesByVal ! c = n"
proof -
  assume "codeOf n = Some c"
  then have "(n, c) \<in> set (zip typesByVal [0..<33])"
    unfolding codeOf_def types_zip by (rule map_of_SomeD)
  then obtain i where i: "i < 33" "typesByVal ! i = n" "[0..<33] ! i = c"
    using typesByVal_length by (auto simp: in_set_zip simp del: upt_Suc)
  then show ?thesis by (simp del: upt_Suc)
qed

text \<open>
  Claim C5, as the code has it: the registry has 33 variants, not 32. Their codes are
  0 to 32 in order, the names are distinct, and the two tables are mutually inverse:
  every code below 33 has a name whose code it is, every registered name has a code
  below 33 whose name it is, and no code from 33 on has a name.
\<close>

theorem registry_bijection:
  "length types = 33 \<and> length typesByVal = 33
   \<and> map snd types = [0..<33] \<and> distinct (map fst types)
   \<and> (\<forall>i<33. \<exists>n. nameOf i = Some n \<and> codeOf n = Some i)
   \<and> (\<forall>n c. codeOf n = Some c \<longrightarrow> c < 33 \<and> nameOf c = Some n)
   \<and> (\<forall>i. 33 \<le> i \<longrightarrow> nameOf i = None)"
proof -
  have a: "length types = 33" by (simp add: types_zip typesByVal_length del: upt_Suc)
  have b: "map snd types = [0..<33]"
    by (simp add: types_zip typesByVal_length del: upt_Suc)
  have c: "distinct (map fst types)"
    using typesByVal_distinct by (simp add: types_zip typesByVal_length del: upt_Suc)
  have d: "\<forall>i<33. \<exists>n. nameOf i = Some n \<and> codeOf n = Some i"
    by (simp add: nameOf_def typesByVal_length codeOf_nth)
  have e: "\<forall>n c. codeOf n = Some c \<longrightarrow> c < 33 \<and> nameOf c = Some n"
    using codeOf_Some by (auto simp: nameOf_def typesByVal_length)
  have f: "\<forall>i. 33 \<le> i \<longrightarrow> nameOf i = None"
    by (simp add: nameOf_def typesByVal_length)
  from a b c d e f typesByVal_length show ?thesis by blast
qed

theorem registry_bijection_witness:
  "codeOf ''UNKNOWN'' = Some 30 \<and> nameOf 30 = Some ''UNKNOWN'' \<and> nameOf 33 = None"
proof -
  have c: "codeOf ''UNKNOWN'' = Some 30" by (simp add: codeOf_def types_def)
  from registry_bijection have
    "\<forall>n c. codeOf n = Some c \<longrightarrow> c < 33 \<and> nameOf c = Some n"
    "\<forall>i. 33 \<le> i \<longrightarrow> nameOf i = None" by blast+
  with c show ?thesis by auto
qed

text \<open>
  The registry does not have exactly 32 variants with codes 0 to 31: the variant DATA
  is registered with code 32.
\<close>

theorem registry_32_counterexample:
  "length types \<noteq> 32 \<and> codeOf ''DATA'' = Some 32 \<and> nameOf 32 = Some ''DATA''"
  by (simp add: types_def codeOf_def nameOf_def typesByVal_def)

section \<open>Group key: properties\<close>

lemma groupKey_loop_closed:
  "i + bits div 8 \<le> length out \<Longrightarrow>
   groupKey_loop r out i start bits =
     (take i out @ map (byte_at r) [start ..< start + bits div 8] @ drop (i + bits div 8) out,
      i + bits div 8, start + bits div 8, bits mod 8)"
proof (induction r out i start bits rule: groupKey_loop.induct)
  case (1 r out i start bits)
  show ?case
  proof (cases "bits \<ge> 8")
    case False
    then show ?thesis by (simp add: groupKey_loop.simps)
  next
    case True
    then have d: "bits div 8 = Suc ((bits - 8) div 8)" "bits mod 8 = (bits - 8) mod 8"
      by (simp_all add: le_div_geq le_mod_geq)
    have il: "i < length out" using "1.prems" d by simp
    have pre: "i + 1 + (bits - 8) div 8 \<le> length (buf_set out i (byte_at r start))"
      using "1.prems" d by (simp add: buf_set_def)
    show ?thesis
      using True il d "1.IH"[OF True pre]
      apply (subst groupKey_loop.simps)
      apply (simp add: buf_set_def upt_rec[of start] take_Suc_conv_app_nth)
      done
  qed
qed

lemma div8_up: "((bits::nat) + 7) div 8 = (if bits mod 8 = 0 then bits div 8 else bits div 8 + 1)"
proof -
  obtain q m where b: "bits = 8 * q + m" and m: "m < 8"
    by (metis mod_less_divisor mult_div_mod_eq zero_less_numeral)
  show ?thesis
  proof (cases "m = 0")
    case True
    with b show ?thesis by simp
  next
    case False
    with m have "(m + 7) div 8 = 1" by simp
    with b m False show ?thesis by (simp add: add.assoc div_mult_self4)
  qed
qed

lemma drop_cons_replicate: "drop k (x # replicate k x) = [x]"
  by (induct k) simp_all

lemma groupKey_copy_closed:
  "groupKey_copy r type start bits =
     Inr (word_of_int type # map (byte_at r) [start ..< start + bits div 8]
          @ (if bits mod 8 = 0 then []
             else [byte_at r (start + bits div 8) OR (push_bit (8 - bits mod 8) 1 - 1)]))"
proof -
  let ?n = "drop_bit 3 (bits + 7)"
  have n: "?n = (if bits mod 8 = 0 then bits div 8 else bits div 8 + 1)"
    using div8_up[of bits] by (simp add: drop_bit_eq_div)
  let ?out1 = "buf_set (replicate (1 + ?n) 0) 0 (word_of_int type)"
  have out1: "?out1 = word_of_int type # replicate ?n 0"
    by (simp add: buf_set_def)
  have le: "1 + bits div 8 \<le> length ?out1" using n by (simp add: buf_set_def)
  have loop: "groupKey_loop r ?out1 1 start bits =
      (word_of_int type # map (byte_at r) [start ..< start + bits div 8]
         @ drop (bits div 8) (replicate ?n 0),
       1 + bits div 8, start + bits div 8, bits mod 8)"
    using groupKey_loop_closed[OF le, of r start] by (simp add: buf_set_def)
  show ?thesis
  proof (cases "bits mod 8 = 0")
    case True
    with n have "?n = bits div 8" by simp
    with True show ?thesis
      unfolding groupKey_copy_def Let_def loop by simp
  next
    case False
    with n have "?n = bits div 8 + 1" by simp
    with False show ?thesis
      unfolding groupKey_copy_def Let_def loop
      by (simp add: buf_set_def drop_cons_replicate list_update_append)
  qed
qed

lemma map_byte_at:
  "start + k \<le> length r \<Longrightarrow> map (byte_at r) [start ..< start + k] = take k (drop start r)"
  by (rule nth_equalityI) (simp_all add: byte_at_def)

lemma groupKey_select_cases:
  assumes "groupKey_select ip r = Inr (type, start, bits)"
  shows "(type, start, bits) \<in>
           {(255, 0, 0), (networks_NONE ip, 0, 0), (networks_INET4 ip, 12, 16),
            (networks_INET4 ip, 2, 16), (networks_ONION ip, 6, 4),
            (networks_INET6 ip, 0, 36), (networks_INET6 ip, 0, 32)}"
  using assms by (simp add: groupKey_select_def split: if_splits)

text \<open>
  Claim C2: for a 16-byte raw address that is routable, not local, not
  IPv4/RFC6145/RFC6052, not RFC3964, and RFC4380 (Teredo), the chain returns at once,
  without the copy procedure, the three bytes IPV4 tag, \<open>raw[12] XOR 0xFF\<close>,
  \<open>raw[13] XOR 0xFF\<close>; with \<open>raw[12] = 0x01\<close> and \<open>raw[13] = 0x02\<close> these are the
  tag, \<open>0xFE\<close>, \<open>0xFD\<close>.
\<close>

theorem groupKey_teredo:
  assumes "length (raw addr) = 16"
    and "\<not> isLocal ip (raw addr)"
    and "isRoutable ip (raw addr)"
    and "\<not> (isIPv4 ip (raw addr) \<or> isRFC6145 ip (raw addr) \<or> isRFC6052 ip (raw addr))"
    and "\<not> isRFC3964 ip (raw addr)"
    and "isRFC4380 ip (raw addr)"
  shows "groupKey_select ip (raw addr) =
           Inl [word_of_int (networks_INET4 ip), raw addr ! 12 XOR 0xff, raw addr ! 13 XOR 0xff]
         \<and> groupKey ip addr =
           Inr [word_of_int (networks_INET4 ip), raw addr ! 12 XOR 0xff, raw addr ! 13 XOR 0xff]
         \<and> (raw addr ! 12 = 0x01 \<and> raw addr ! 13 = 0x02 \<longrightarrow>
              groupKey ip addr = Inr [word_of_int (networks_INET4 ip), 0xFE, 0xFD])"
proof -
  have sel: "groupKey_select ip (raw addr) =
      Inl [word_of_int (networks_INET4 ip), raw addr ! 12 XOR 0xff, raw addr ! 13 XOR 0xff]"
    using assms by (simp add: groupKey_select_def buf_set_def byte_at_def numeral_3_eq_3 numeral_2_eq_2)
  then have key: "groupKey ip addr =
      Inr [word_of_int (networks_INET4 ip), raw addr ! 12 XOR 0xff, raw addr ! 13 XOR 0xff]"
    by (simp add: groupKey_def)
  have "raw addr ! 12 = 0x01 \<and> raw addr ! 13 = 0x02 \<longrightarrow>
          groupKey ip addr = Inr [word_of_int (networks_INET4 ip), 0xFE, 0xFD]"
    using key by simp
  with sel key show ?thesis by blast
qed

lemma replicate_numeral: "replicate (numeral n) x = x # replicate (pred_numeral n) x"
  by (simp add: numeral_eq_Suc)

lemmas ref_preds =
  ref_isIPv4_def ref_isRFC3964_def ref_isRFC4380_def ref_isRFC6052_def ref_isRFC6145_def
  ref_isOnion_def ref_isLocal_def ref_isPrivate_def ref_isRoutable_def has_prefix_def
  IPV4_PREFIX_def byte_at_def replicate_numeral

theorem groupKey_teredo_witness:
  "length teredo_raw = 16 \<and> \<not> isLocal binet_ref teredo_raw \<and> isRoutable binet_ref teredo_raw
   \<and> \<not> isIPv4 binet_ref teredo_raw \<and> \<not> isRFC6145 binet_ref teredo_raw
   \<and> \<not> isRFC6052 binet_ref teredo_raw \<and> \<not> isRFC3964 binet_ref teredo_raw
   \<and> isRFC4380 binet_ref teredo_raw
   \<and> groupKey binet_ref (addr_of_raw teredo_raw) = Inr [1, 0xFE, 0xFD]"
proof -
  have h: "length teredo_raw = 16" "\<not> isLocal binet_ref teredo_raw"
    "isRoutable binet_ref teredo_raw"
    "\<not> isIPv4 binet_ref teredo_raw" "\<not> isRFC6145 binet_ref teredo_raw"
    "\<not> isRFC6052 binet_ref teredo_raw" "\<not> isRFC3964 binet_ref teredo_raw"
    "isRFC4380 binet_ref teredo_raw"
    by (simp_all add: binet_ref_def teredo_raw_def ref_preds)
  have r: "raw (addr_of_raw teredo_raw) = teredo_raw" by (simp add: addr_of_raw_def)
  have b: "teredo_raw ! 12 = 0x01 \<and> teredo_raw ! 13 = 0x02" by (simp add: teredo_raw_def)
  have "groupKey binet_ref (addr_of_raw teredo_raw)
          = Inr [word_of_int (networks_INET4 binet_ref), 0xFE, 0xFD]"
    using groupKey_teredo[of "addr_of_raw teredo_raw" binet_ref] h b unfolding r by blast
  then have "groupKey binet_ref (addr_of_raw teredo_raw) = Inr [1, 0xFE, 0xFD]"
    by (simp add: binet_ref_def)
  with h show ?thesis by blast
qed

text \<open>
  Claim C3, as the code has it: on a 16-byte raw address, every branch but Teredo
  yields \<open>1 + ceil(bits/8)\<close> bytes: the type tag of the branch, the
  \<open>floor(bits/8)\<close> bytes of the raw address from the branch's offset on, and, when
  \<open>bits\<close> is not a multiple of 8, one more byte: the raw byte that follows the
  copied ones, at \<open>offset + floor(bits/8)\<close>, with its low \<open>8 - bits mod 8\<close> bits set
  to 1. Tag, offset and bits are those of the table; a local or unroutable address
  yields the tag alone.
\<close>

theorem groupKey_generic:
  assumes len: "length (raw addr) = 16"
    and sel: "groupKey_select ip (raw addr) = Inr (type, start, bits)"
  shows "groupKey ip addr =
           Inr (word_of_int type # take (bits div 8) (drop start (raw addr))
                @ (if bits mod 8 = 0 then []
                   else [raw addr ! (start + bits div 8) OR (push_bit (8 - bits mod 8) 1 - 1)]))
         \<and> (\<exists>out. groupKey ip addr = Inr out \<and> length out = 1 + (bits + 7) div 8)
         \<and> (type, start, bits) =
             (if isLocal ip (raw addr) then (255, 0, 0)
              else if \<not> isRoutable ip (raw addr) then (networks_NONE ip, 0, 0)
              else if isIPv4 ip (raw addr) \<or> isRFC6145 ip (raw addr) \<or> isRFC6052 ip (raw addr)
                then (networks_INET4 ip, 12, 16)
              else if isRFC3964 ip (raw addr) then (networks_INET4 ip, 2, 16)
              else if isOnion ip (raw addr) then (networks_ONION ip, 6, 4)
              else if raw addr ! 0 = 0x20 \<and> raw addr ! 1 = 0x01
                    \<and> raw addr ! 2 = 0x04 \<and> raw addr ! 3 = 0x70
                then (networks_INET6 ip, 0, 36)
              else (networks_INET6 ip, 0, 32))
         \<and> (isLocal ip (raw addr) \<or> \<not> isRoutable ip (raw addr) \<longrightarrow>
              groupKey ip addr = Inr [word_of_int type])"
proof -
  let ?r = "raw addr"
  from groupKey_select_cases[OF sel]
  have bound: "start + bits div 8 < 16 \<and> bits < 40"
    by auto
  then have le: "start + bits div 8 \<le> length ?r" using len by simp
  have whole: "map (byte_at ?r) [start ..< start + bits div 8] = take (bits div 8) (drop start ?r)"
    using le by (rule map_byte_at)
  have part: "byte_at ?r (start + bits div 8) = ?r ! (start + bits div 8)"
    using bound len by (simp add: byte_at_def)
  have key: "groupKey ip addr =
           Inr (word_of_int type # take (bits div 8) (drop start ?r)
                @ (if bits mod 8 = 0 then []
                   else [?r ! (start + bits div 8) OR (push_bit (8 - bits mod 8) 1 - 1)]))"
    unfolding groupKey_def sel by (simp add: groupKey_copy_closed whole part)
  have lenout: "\<exists>out. groupKey ip addr = Inr out \<and> length out = 1 + (bits + 7) div 8"
    unfolding key using le len by (simp add: div8_up)
  have table: "(type, start, bits) =
             (if isLocal ip ?r then (255, 0, 0)
              else if \<not> isRoutable ip ?r then (networks_NONE ip, 0, 0)
              else if isIPv4 ip ?r \<or> isRFC6145 ip ?r \<or> isRFC6052 ip ?r
                then (networks_INET4 ip, 12, 16)
              else if isRFC3964 ip ?r then (networks_INET4 ip, 2, 16)
              else if isOnion ip ?r then (networks_ONION ip, 6, 4)
              else if ?r ! 0 = 0x20 \<and> ?r ! 1 = 0x01 \<and> ?r ! 2 = 0x04 \<and> ?r ! 3 = 0x70
                then (networks_INET6 ip, 0, 36)
              else (networks_INET6 ip, 0, 32))"
    using sel len by (simp add: groupKey_select_def byte_at_def split: if_splits)
  have tagonly: "isLocal ip ?r \<or> \<not> isRoutable ip ?r \<longrightarrow> groupKey ip addr = Inr [word_of_int type]"
    using table unfolding key by (auto split: if_splits)
  from key lenout table tagonly show ?thesis by blast
qed

theorem groupKey_generic_witness:
  "length (raw (addr_of_raw he_raw)) = 16
   \<and> groupKey_select binet_ref (raw (addr_of_raw he_raw)) = Inr (2, 0, 36)
   \<and> groupKey binet_ref (addr_of_raw he_raw) = Inr [2, 0x20, 0x01, 0x04, 0x70, 0xaf]"
proof -
  have l: "length (raw (addr_of_raw he_raw)) = 16" by (simp add: addr_of_raw_def he_raw_def)
  have s: "groupKey_select binet_ref (raw (addr_of_raw he_raw)) = Inr (2, 0, 36)"
    by (simp add: groupKey_select_def addr_of_raw_def he_raw_def binet_ref_def ref_preds)
  have "groupKey binet_ref (addr_of_raw he_raw) =
      Inr (word_of_int 2 # take (36 div 8) (drop 0 (raw (addr_of_raw he_raw)))
                @ (if (36::nat) mod 8 = 0 then []
                   else [raw (addr_of_raw he_raw) ! (0 + 36 div 8) OR (push_bit (8 - 36 mod 8) 1 - 1)]))"
    using groupKey_generic[OF l s] by blast
  then have "groupKey binet_ref (addr_of_raw he_raw) = Inr [2, 0x20, 0x01, 0x04, 0x70, 0xaf]"
    by (simp add: addr_of_raw_def he_raw_def)
  with l s show ?thesis by blast
qed

text \<open>
  In the 36-bit branch the partial byte is not \<open>raw[offset] OR 0x0F\<close> with the
  branch's offset 0 (that is \<open>0x2F\<close> here) but \<open>raw[4] OR 0x0F\<close>, \<open>0xAF\<close>.
\<close>

theorem groupKey_partial_byte_counterexample:
  "groupKey_select binet_ref he_raw = Inr (2, 0, 36)
   \<and> groupKey binet_ref (addr_of_raw he_raw) = Inr [2, 0x20, 0x01, 0x04, 0x70, 0xaf]
   \<and> he_raw ! 0 OR (push_bit (8 - 36 mod 8) 1 - 1) = 0x2f
   \<and> he_raw ! (0 + 36 div 8) OR (push_bit (8 - 36 mod 8) 1 - 1) = 0xaf"
proof -
  have s: "groupKey_select binet_ref he_raw = Inr (2, 0, 36)"
    by (simp add: groupKey_select_def he_raw_def binet_ref_def ref_preds)
  then have "groupKey binet_ref (addr_of_raw he_raw) = Inr [2, 0x20, 0x01, 0x04, 0x70, 0xaf]"
    by (simp add: groupKey_def addr_of_raw_def groupKey_copy_closed)
       (simp add: he_raw_def byte_at_def upt_rec)
  moreover have "he_raw ! 0 OR (push_bit (8 - 36 mod 8) 1 - 1) = 0x2f"
    "he_raw ! (0 + 36 div 8) OR (push_bit (8 - 36 mod 8) 1 - 1) = 0xaf"
    by (simp_all add: he_raw_def)
  ultimately show ?thesis using s by blast
qed

section \<open>Serialisation: properties\<close>

subsection \<open>Reading back what was written\<close>

lemma length_le_bytes: "length (le_bytes k n) = k"
  by (induction k arbitrary: n) simp_all

lemma le_int_le_bytes: "le_int (le_bytes k n) = n mod 256 ^ k"
proof (induction k arbitrary: n)
  case 0
  show ?case by simp
next
  case (Suc k)
  have "uint (word_of_int n :: byte) = n mod 256"
    by (simp add: uint_word_of_int)
  then have "le_int (le_bytes (Suc k) n) = n mod 256 + 256 * ((n div 256) mod 256 ^ k)"
    by (simp add: Suc.IH)
  also have "\<dots> = n mod (256 * 256 ^ k)"
    using zmod_zmult2_eq[of "256 ^ k" n 256] by simp
  finally show ?case by simp
qed

lemma read_le_append: "length xs = k \<Longrightarrow> read_le k (xs @ rest) = Inr (le_int xs, rest)"
  by (simp add: read_le_def)

lemma read_le_bytes:
  "0 \<le> n \<Longrightarrow> n < 256 ^ k \<Longrightarrow> read_le k (le_bytes k n @ rest) = Inr (n, rest)"
  by (simp add: read_le_append length_le_bytes le_int_le_bytes)

lemma readU8_write:
  "0 \<le> n \<Longrightarrow> n < 2 ^ 8 \<Longrightarrow> readU8 (le_bytes (Suc 0) n @ rest) = Inr (n, rest)"
  using read_le_bytes[of n 1 rest] by (simp add: readU8_def del: le_bytes.simps)

lemma readU16_write: "0 \<le> n \<Longrightarrow> n \<le> 0xffff \<Longrightarrow> readU16 (le_bytes 2 n @ rest) = Inr (n, rest)"
  using read_le_bytes[of n 2 rest] by (simp add: readU16_def)

lemma readU32_write: "0 \<le> n \<Longrightarrow> n < 2 ^ 32 \<Longrightarrow> readU32 (le_bytes 4 n @ rest) = Inr (n, rest)"
  using read_le_bytes[of n 4 rest] by (simp add: readU32_def)

lemma readU64_write:
  "0 \<le> n \<Longrightarrow> n \<le> 2 ^ 53 - 1 \<Longrightarrow> readU64 (le_bytes 8 n @ rest) = Inr (n, rest)"
  using read_le_bytes[of n 8 rest] by (simp add: readU64_def)

lemma readBytes_append: "length xs = k \<Longrightarrow> readBytes k (xs @ rest) = Inr (xs, rest)"
  by (simp add: readBytes_def)

lemma seek_append: "length xs = k \<Longrightarrow> seek k (xs @ rest) = Inr rest"
  by (simp add: seek_def)

lemma ascii_char_roundtrip:
  assumes "(of_char c :: nat) < 128"
  shows "char_of (unat ((of_nat (of_char c) :: byte) AND 0x7f)) = c"
proof -
  have "(of_nat (of_char c) :: byte) AND 0x7f = of_nat (of_char c)"
  proof -
    have "uint (of_nat (of_char c) :: byte) < 2 ^ 7"
      using assms by (simp add: uint_nat unat_of_nat)
    then have "(of_nat (of_char c) :: byte) AND mask 7 = of_nat (of_char c)"
      by (simp only: mask_eq_iff)
    then show ?thesis by (simp add: mask_eq_exp_minus_1)
  qed
  moreover have "unat (of_nat (of_char c) :: byte) = of_char c"
    using assms by (simp add: unat_of_nat)
  ultimately show ?thesis by simp
qed

lemma readString_write:
  assumes "list_all (\<lambda>c. (of_char c :: nat) < 128) s"
  shows "readString (length s) (map (\<lambda>c. of_nat (of_char c)) s @ rest) = Inr (s, rest)"
proof -
  have "map (\<lambda>b. char_of (unat (b AND 0x7f))) (map (\<lambda>c. (of_nat (of_char c) :: byte)) s) = s"
    using assms by (induction s) (simp_all add: ascii_char_roundtrip)
  then show ?thesis
    by (simp add: readString_def readBytes_append)
qed

subsection \<open>Round trip of the address record and the version packet\<close>

lemma NetAddress_write_bytes:
  "NetAddress_write bw a =
     bw @ le_bytes 8 (time a) @ le_bytes 4 (services a) @ le_bytes 4 0 @ le_bytes 1 0
        @ raw a @ replicate 20 0 @ le_bytes 2 (port a) @ key a"
  by (simp add: NetAddress_write_def writeU64_def writeU32_def writeU8_def writeU16_def
        writeBytes_def fill_def)

lemma NetAddress_write_length:
  "length (raw a) = 16 \<Longrightarrow> length (key a) = 33 \<Longrightarrow>
   length (NetAddress_write bw a) = length bw + 88"
  by (simp add: NetAddress_write_bytes length_le_bytes)

lemma NetAddress_read_write:
  assumes "valid_NetAddress ip r"
  shows "NetAddress_read ip a0 (NetAddress_write [] r @ rest) = (None, r, rest)"
proof -
  from assms[unfolded valid_NetAddress_def] have t: "0 \<le> time r" "time r \<le> 2 ^ 53 - 1"
    and s: "0 \<le> services r" "services r < 2 ^ 32"
    and p: "0 \<le> port r" "port r \<le> 0xffff"
    and lr: "length (raw r) = 16" and lk: "length (key r) = 33"
    and h: "host r = JStr (toString ip (raw r))"
    and hn: "toHostname ip (host r) (port r) (key r) = Some (hostname r)"
    by blast+
  have hi: "readU32 (le_bytes 4 0 @ xs) = Inr (0, xs)" for xs
    by (rule readU32_write) simp_all
  have d: "readU8 (0 # xs) = Inr (0, xs)" for xs
    by (simp add: readU8_def read_le_def)
  have pad: "seek 20 (replicate 20 0 @ xs) = Inr xs" for xs
    by (rule seek_append) simp
  have tail: "NetAddress_read_tail ip a (le_bytes 2 (port r) @ key r @ rest) =
      (case set_hostname ip (a\<lparr>port := port r, key := key r, host := JStr (toString ip (raw a))\<rparr>)
       of (e, a') \<Rightarrow> (e, a', rest))"
    for a
    by (simp add: NetAddress_read_tail_def readU16_write[OF p] readBytes_append[OF lk]
          split: prod.splits)
  show ?thesis
    unfolding NetAddress_write_bytes NetAddress_read_def
    by (simp add: readU64_write[OF t] readU32_write[OF s] hi d readBytes_append[OF lr] pad tail
          set_hostname_def h[symmetric] hn)
qed


lemma NetAddress_write_append: "NetAddress_write bw a = bw @ NetAddress_write [] a"
  by (simp add: NetAddress_write_bytes)

lemma VersionPacket_write_bytes:
  assumes "nonce p = Some n" and "agent p = Some a"
  shows "VersionPacket_write bw p =
     Inr (bw @ le_bytes 4 (version p) @ le_bytes 4 (v_services p) @ le_bytes 4 0
          @ le_bytes 8 (v_time p) @ NetAddress_write [] (remote p) @ n
          @ le_bytes 1 (int (length a)) @ map (\<lambda>c. of_nat (of_char c)) a
          @ le_bytes 4 (height p) @ le_bytes 1 (if noRelay p then 1 else 0))"
  using assms
  by (simp add: VersionPacket_write_def writeU64_def writeU32_def writeU8_def
        writeBytes_def writeString_def NetAddress_write_append[of "_ @ _"])

lemma VersionPacket_read_write:
  assumes v: "valid_VersionPacket ip v"
    and ty: "v_type p0 = v_type v"
  shows "\<exists>bytes. VersionPacket_write [] v = Inr bytes
           \<and> VersionPacket_read ip p0 (bytes @ rest) = (None, v, rest)"
proof -
  from v[unfolded valid_VersionPacket_def] obtain n a where
        ver: "0 \<le> version v" "version v < 2 ^ 32"
    and srv: "0 \<le> v_services v" "v_services v < 2 ^ 32"
    and tm: "0 \<le> v_time v" "v_time v \<le> 2 ^ 53 - 1"
    and rem: "valid_NetAddress ip (remote v)"
    and n: "nonce v = Some n" "length n = 8"
    and a: "agent v = Some a" "length a \<le> 255" "list_all (\<lambda>c. (of_char c :: nat) < 128) a"
    and h: "0 \<le> height v" "height v < 2 ^ 32"
    by (auto split: option.splits)
  have hi: "readU32 (le_bytes 4 0 @ xs) = Inr (0, xs)" for xs
    by (rule readU32_write) simp_all
  have len: "readU8 (le_bytes (Suc 0) (int (length a)) @ xs) = Inr (int (length a), xs)" for xs
    using a(2) by (intro readU8_write) simp_all
  have flag1: "readU8 (le_bytes (Suc 0) 1 @ xs) = Inr (1, xs)" for xs
    by (intro readU8_write) simp_all
  have flag0: "readU8 (le_bytes (Suc 0) 0 @ xs) = Inr (0, xs)" for xs
    by (intro readU8_write) simp_all
  have eq: "p0\<lparr>version := version v, v_services := v_services v, v_time := v_time v,
               remote := remote v, nonce := Some n, agent := Some a, height := height v,
               noRelay := b\<rparr> = v" if "b = noRelay v" for b
    using ty n(1) a(1) that by (cases v, cases p0) simp
  have "VersionPacket_read ip p0
          ((le_bytes 4 (version v) @ le_bytes 4 (v_services v) @ le_bytes 4 0
          @ le_bytes 8 (v_time v) @ NetAddress_write [] (remote v) @ n
          @ le_bytes 1 (int (length a)) @ map (\<lambda>c. of_nat (of_char c)) a
          @ le_bytes 4 (height v) @ le_bytes 1 (if noRelay v then 1 else 0)) @ rest)
        = (None, v, rest)"
    unfolding VersionPacket_read_def
    by (simp del: le_bytes.simps
          add: readU32_write[OF ver] readU32_write[OF srv] hi readU64_write[OF tm]
          NetAddress_read_write[OF rem] readBytes_append[OF n(2)] len
          readString_write[OF a(3)] readU32_write[OF h] flag1 flag0 eq)
  then show ?thesis
    using VersionPacket_write_bytes[OF n(1) a(1), of "[]"] by simp
qed


lemma example_remote_valid: "valid_NetAddress binet_ref example_remote"
  by (simp add: valid_NetAddress_def example_remote_def binet_ref_def ZERO_KEY_def
        ref_toString_def ref_toHostname_def ref_compose_def has_prefix_def IPV4_PREFIX_def
        dec_str.simps)

lemma example_packet_valid: "valid_VersionPacket binet_ref example_packet"
  using example_remote_valid
  by (simp add: valid_VersionPacket_def example_packet_def codeOf_def types_def)

lemma constructor_bound:
  "VersionPacket_constructor ip (Some NetAddress_new) now None = Inr p0 \<Longrightarrow> v_type p0 = 0"
  by (auto simp: VersionPacket_constructor_def types_def)

lemma constructor_bound_returns:
  "\<exists>p0. VersionPacket_constructor ip (Some NetAddress_new) now None = Inr p0"
  by (simp add: VersionPacket_constructor_def)

lemma decode_unbound: "VersionPacket_decode ip packets_NetAddress now data = Inl TypeError"
  by (simp add: VersionPacket_decode_def VersionPacket_constructor_def packets_NetAddress_def)

lemma decode_bound_write:
  assumes v: "valid_VersionPacket ip v"
    and w: "VersionPacket_write [] v = Inr bytes"
  shows "VersionPacket_decode ip (Some NetAddress_new) now bytes = Inr v"
proof -
  obtain p0 where c: "VersionPacket_constructor ip (Some NetAddress_new) now None = Inr p0"
    using constructor_bound_returns by blast
  from v have "v_type v = 0"
    by (simp add: valid_VersionPacket_def codeOf_def types_def)
  with constructor_bound[OF c] have "v_type p0 = v_type v" by simp
  from VersionPacket_read_write[OF v this, of "[]"] w
  have "VersionPacket_read ip p0 bytes = (None, v, [])" by simp
  with c show ?thesis by (simp add: VersionPacket_decode_def)
qed

text \<open>
  Claim C1, evaluated on the code. \<open>decode\<close> of a version packet constructs a default
  instance first, and the constructor throws (the name \<open>NetAddress\<close> is unbound, the
  defect of claim C6): on the code, decoding throws a \<open>TypeError\<close> whatever the bytes
  are. The codec itself does what the claim says. A valid packet is written in the
  layout version, services, four zero bytes, time, address record, nonce, agent
  length, agent, height, flag; reading these bytes into an instance of the variant,
  and decoding them once the name is bound to the class, returns normally, consumes
  every byte and gives a packet equal to the written one in every field. A valid
  address record is written with its reserved bytes zero, and the static reader
  returns a record equal to it in every field.
\<close>

theorem decode_of_write:
  "VersionPacket_decode ip packets_NetAddress now data = Inl TypeError
   \<and> (valid_VersionPacket ip v \<longrightarrow>
        VersionPacket_write [] v =
          Inr (le_bytes 4 (version v) @ le_bytes 4 (v_services v) @ [0, 0, 0, 0]
               @ le_bytes 8 (v_time v) @ NetAddress_write [] (remote v) @ the (nonce v)
               @ le_bytes 1 (int (length (the (agent v))))
               @ map (\<lambda>c. of_nat (of_char c)) (the (agent v))
               @ le_bytes 4 (height v) @ le_bytes 1 (if noRelay v then 1 else 0))
        \<and> (\<exists>bytes. VersionPacket_write [] v = Inr bytes
              \<and> (v_type q = v_type v \<longrightarrow> VersionPacket_read ip q bytes = (None, v, []))
              \<and> VersionPacket_decode ip (Some NetAddress_new) now bytes = Inr v))
   \<and> (valid_NetAddress ip r \<longrightarrow>
        NetAddress_static_read ip (NetAddress_write [] r) = (None, r, [])
        \<and> NetAddress_write [] r =
            le_bytes 8 (time r) @ le_bytes 4 (services r) @ [0, 0, 0, 0] @ [0]
            @ raw r @ replicate 20 0 @ le_bytes 2 (port r) @ key r)"
proof -
  have layout: "VersionPacket_write [] v =
          Inr (le_bytes 4 (version v) @ le_bytes 4 (v_services v) @ [0, 0, 0, 0]
               @ le_bytes 8 (v_time v) @ NetAddress_write [] (remote v) @ the (nonce v)
               @ le_bytes 1 (int (length (the (agent v))))
               @ map (\<lambda>c. of_nat (of_char c)) (the (agent v))
               @ le_bytes 4 (height v) @ le_bytes 1 (if noRelay v then 1 else 0))"
    if "valid_VersionPacket ip v"
  proof -
    from that obtain n a where na: "nonce v = Some n" "agent v = Some a"
      by (auto simp: valid_VersionPacket_def split: option.splits)
    have z: "le_bytes 4 0 = [0, 0, 0, 0]" by (simp add: numeral_eq_Suc)
    show ?thesis
      using VersionPacket_write_bytes[OF na, of "[]"] by (simp add: na z del: le_bytes.simps)
  qed
  have round: "\<exists>bytes. VersionPacket_write [] v = Inr bytes
              \<and> (v_type q = v_type v \<longrightarrow> VersionPacket_read ip q bytes = (None, v, []))
              \<and> VersionPacket_decode ip (Some NetAddress_new) now bytes = Inr v"
    if v: "valid_VersionPacket ip v"
  proof -
    from layout[OF v] obtain bytes where w: "VersionPacket_write [] v = Inr bytes" by blast
    have "VersionPacket_read ip q bytes = (None, v, [])" if "v_type q = v_type v"
      using VersionPacket_read_write[OF v that, of "[]"] w by simp
    with w decode_bound_write[OF v w] show ?thesis by blast
  qed
  have b: "valid_NetAddress ip r \<longrightarrow>
        NetAddress_static_read ip (NetAddress_write [] r) = (None, r, [])"
    using NetAddress_read_write[of ip r "NetAddress_new ip" "[]"]
    by (simp add: NetAddress_static_read_def)
  have c: "NetAddress_write [] r =
            le_bytes 8 (time r) @ le_bytes 4 (services r) @ [0, 0, 0, 0] @ [0]
            @ raw r @ replicate 20 0 @ le_bytes 2 (port r) @ key r"
    by (simp add: NetAddress_write_bytes numeral_eq_Suc)
  from decode_unbound[of ip now data] layout round b c show ?thesis by blast
qed

theorem decode_of_write_witness:
  "valid_VersionPacket binet_ref example_packet
   \<and> valid_NetAddress binet_ref example_remote
   \<and> v_type blank_packet = v_type example_packet
   \<and> (\<exists>bytes. VersionPacket_write [] example_packet = Inr bytes
         \<and> VersionPacket_read binet_ref blank_packet bytes = (None, example_packet, [])
         \<and> VersionPacket_decode binet_ref (Some NetAddress_new) 1700000000000 bytes
             = Inr example_packet
         \<and> VersionPacket_decode binet_ref packets_NetAddress 1700000000000 bytes
             = Inl TypeError)
   \<and> NetAddress_static_read binet_ref (NetAddress_write [] example_remote)
       = (None, example_remote, [])
   \<and> \<not> hasKey example_remote"
proof -
  have t: "v_type blank_packet = v_type example_packet"
    by (simp add: blank_packet_def example_packet_def)
  have k: "\<not> hasKey example_remote"
    by (simp add: hasKey_def example_remote_def)
  from decode_of_write[where ip = binet_ref and v = example_packet and q = blank_packet
      and now = 1700000000000 and r = example_remote]
    example_packet_valid example_remote_valid t
  obtain bytes where w: "VersionPacket_write [] example_packet = Inr bytes"
    and rd: "VersionPacket_read binet_ref blank_packet bytes = (None, example_packet, [])"
    and dc: "VersionPacket_decode binet_ref (Some NetAddress_new) 1700000000000 bytes
               = Inr example_packet"
    and sr: "NetAddress_static_read binet_ref (NetAddress_write [] example_remote)
               = (None, example_remote, [])"
    by blast
  from decode_of_write[where ip = binet_ref and now = 1700000000000 and data = bytes]
  have "VersionPacket_decode binet_ref packets_NetAddress 1700000000000 bytes = Inl TypeError"
    by blast
  with w rd dc sr t k example_packet_valid example_remote_valid show ?thesis by blast
qed

subsection \<open>Size\<close>

text \<open>
  Claim C7, as the code has it: the size of a version packet whose agent is a string is
  \<open>20 + 88 + 8 + 1 + agent.length + 5\<close>, and the size of an address record is the
  constant 88. The size is the number of bytes \<open>write\<close> produces when the raw address
  has 16 bytes, the key 33 and, for the packet, the nonce 8.
\<close>

theorem size_matches_write:
  "(agent p = Some a \<longrightarrow> VersionPacket_getSize p = Inr (20 + 88 + 8 + 1 + length a + 5))
   \<and> NetAddress_getSize r = 88
   \<and> (length (raw r) = 16 \<and> length (key r) = 33 \<longrightarrow>
        length (NetAddress_write [] r) = NetAddress_getSize r)
   \<and> (agent p = Some a \<and> nonce p = Some n \<and> length n = 8
        \<and> length (raw (remote p)) = 16 \<and> length (key (remote p)) = 33 \<longrightarrow>
        (\<exists>bytes. VersionPacket_write [] p = Inr bytes
           \<and> VersionPacket_getSize p = Inr (length bytes)))"
proof -
  have a: "agent p = Some a \<longrightarrow> VersionPacket_getSize p = Inr (20 + 88 + 8 + 1 + length a + 5)"
    by (simp add: VersionPacket_getSize_def NetAddress_getSize_def)
  have b: "NetAddress_getSize r = 88" by (simp add: NetAddress_getSize_def)
  have c: "length (raw r) = 16 \<and> length (key r) = 33 \<longrightarrow>
        length (NetAddress_write [] r) = NetAddress_getSize r"
    by (simp add: NetAddress_write_length NetAddress_getSize_def)
  have d: "agent p = Some a \<and> nonce p = Some n \<and> length n = 8
        \<and> length (raw (remote p)) = 16 \<and> length (key (remote p)) = 33 \<longrightarrow>
        (\<exists>bytes. VersionPacket_write [] p = Inr bytes
           \<and> VersionPacket_getSize p = Inr (length bytes))"
    by (simp add: VersionPacket_write_bytes VersionPacket_getSize_def NetAddress_getSize_def
          NetAddress_write_length length_le_bytes del: le_bytes.simps)
  from a b c d show ?thesis by blast
qed

theorem size_matches_write_witness:
  "agent example_packet = Some ''test-agent''
   \<and> nonce example_packet = Some [1, 2, 3, 4, 5, 6, 7, 8]
   \<and> length (raw (remote example_packet)) = 16 \<and> length (key (remote example_packet)) = 33
   \<and> VersionPacket_getSize example_packet = Inr 132
   \<and> (\<exists>bytes. VersionPacket_write [] example_packet = Inr bytes \<and> length bytes = 132)
   \<and> length (NetAddress_write [] example_remote) = 88"
proof -
  have h: "agent example_packet = Some ''test-agent''"
    "nonce example_packet = Some [1, 2, 3, 4, 5, 6, 7, 8]"
    "length [1, 2, 3, 4, 5, 6, 7, 8 :: byte] = 8"
    "length (raw (remote example_packet)) = 16" "length (key (remote example_packet)) = 33"
    "length (raw example_remote) = 16" "length (key example_remote) = 33"
    by (simp_all add: example_packet_def example_remote_def ZERO_KEY_def)
  from size_matches_write[of example_packet "''test-agent''" example_remote "[1, 2, 3, 4, 5, 6, 7, 8]"] h
  have "VersionPacket_getSize example_packet = Inr (20 + 88 + 8 + 1 + length ''test-agent'' + 5)"
    and "length (NetAddress_write [] example_remote) = NetAddress_getSize example_remote"
    and "NetAddress_getSize example_remote = 88"
    and "\<exists>bytes. VersionPacket_write [] example_packet = Inr bytes
           \<and> VersionPacket_getSize example_packet = Inr (length bytes)"
    by blast+
  with h show ?thesis by auto
qed

text \<open>
  \<open>fromOptions\<close> stores a nonce of any length. With a nonce of 4 bytes the size is
  still 132, and \<open>write\<close> produces 128 bytes.
\<close>

theorem size_short_nonce_counterexample:
  "VersionPacket_fromOptions binet_ref example_packet short_nonce_options
     = (None, example_packet\<lparr>nonce := Some [1, 2, 3, 4]\<rparr>)
   \<and> VersionPacket_getSize (example_packet\<lparr>nonce := Some [1, 2, 3, 4]\<rparr>) = Inr 132
   \<and> map_sum (\<lambda>e. e) length
         (VersionPacket_write [] (example_packet\<lparr>nonce := Some [1, 2, 3, 4]\<rparr>)) = Inr 128"
proof -
  have a: "VersionPacket_fromOptions binet_ref example_packet short_nonce_options
     = (None, example_packet\<lparr>nonce := Some [1, 2, 3, 4]\<rparr>)"
    by (simp add: VersionPacket_fromOptions_def short_nonce_options_def)
  have b: "VersionPacket_getSize (example_packet\<lparr>nonce := Some [1, 2, 3, 4]\<rparr>) = Inr 132"
    by (simp add: VersionPacket_getSize_def NetAddress_getSize_def example_packet_def)
  have c: "map_sum (\<lambda>e. e) length
         (VersionPacket_write [] (example_packet\<lparr>nonce := Some [1, 2, 3, 4]\<rparr>)) = Inr 128"
    by (simp add: VersionPacket_write_bytes[of _ "[1, 2, 3, 4]" "''test-agent''"]
          example_packet_def example_remote_def ZERO_KEY_def
          NetAddress_write_bytes length_le_bytes del: le_bytes.simps)
  from a b c show ?thesis by blast
qed

section \<open>Comparison: properties\<close>

lemma buffer_compare_zero: "buffer_compare xs ys = 0 \<longleftrightarrow> xs = ys"
  by (induction xs ys rule: buffer_compare.induct) auto

lemma buffer_compare_neg:
  "buffer_compare xs ys < 0 \<longleftrightarrow> (xs, ys) \<in> lexord {(x, y). x < y}"
  by (induction xs ys rule: buffer_compare.induct) auto

lemma buffer_compare_pos:
  "buffer_compare xs ys > 0 \<longleftrightarrow> (ys, xs) \<in> lexord {(x, y). x < y}"
  by (induction xs ys rule: buffer_compare.induct) auto

text \<open>
  Claim C10: \<open>equal\<close> holds exactly when the raw addresses are the same bytes and
  the ports are equal; services, time, key, host and hostname play no role.
  \<open>compare\<close> orders by the raw addresses lexicographically (bytes unsigned) and,
  for equal raw addresses, is the difference of the ports.
\<close>

theorem equal_compare_raw_port:
  "(equal a b \<longleftrightarrow> raw a = raw b \<and> port a = port b)
   \<and> equal (a\<lparr>services := s, time := t, key := k, host := h, hostname := hn\<rparr>)
            (b\<lparr>services := s', time := t', key := k', host := h', hostname := hn'\<rparr>)
       = equal a b
   \<and> (compare a b < 0 \<longleftrightarrow>
        (raw a, raw b) \<in> lexord {(x, y). x < y} \<or> (raw a = raw b \<and> port a < port b))
   \<and> (compare a b > 0 \<longleftrightarrow>
        (raw b, raw a) \<in> lexord {(x, y). x < y} \<or> (raw a = raw b \<and> port a > port b))
   \<and> (raw a = raw b \<longrightarrow> compare a b = port a - port b)"
proof -
  have irr: "(xs, xs) \<notin> lexord {(x, y). x < y}" for xs :: buffer
    by (rule lexord_irreflexive) simp
  have e: "equal a b \<longleftrightarrow> raw a = raw b \<and> port a = port b" for a b
    by (auto simp: equal_def compare_def Let_def buffer_compare_zero)
  have f: "equal (a\<lparr>services := s, time := t, key := k, host := h, hostname := hn\<rparr>)
            (b\<lparr>services := s', time := t', key := k', host := h', hostname := hn'\<rparr>)
       = equal a b"
    by (simp add: e)
  have l: "compare a b < 0 \<longleftrightarrow>
        (raw a, raw b) \<in> lexord {(x, y). x < y} \<or> (raw a = raw b \<and> port a < port b)"
    using irr[of "raw b"] buffer_compare_zero[of "raw a" "raw b"]
      buffer_compare_neg[of "raw a" "raw b"]
    by (auto simp: compare_def Let_def)
  have g: "compare a b > 0 \<longleftrightarrow>
        (raw b, raw a) \<in> lexord {(x, y). x < y} \<or> (raw a = raw b \<and> port a > port b)"
    using irr[of "raw b"] buffer_compare_zero[of "raw a" "raw b"]
      buffer_compare_pos[of "raw a" "raw b"]
    by (auto simp: compare_def Let_def)
  have p: "raw a = raw b \<longrightarrow> compare a b = port a - port b"
    by (simp add: compare_def buffer_compare_zero)
  from e f l g p show ?thesis by blast
qed

theorem equal_compare_raw_port_witness:
  "raw example_remote = raw (example_remote\<lparr>port := 9999, services := 1\<rparr>)
   \<and> compare example_remote (example_remote\<lparr>port := 9999, services := 1\<rparr>) = 8333 - 9999
   \<and> \<not> equal example_remote (example_remote\<lparr>port := 9999, services := 1\<rparr>)
   \<and> equal example_remote (example_remote\<lparr>services := 1, time := 7\<rparr>)"
proof -
  let ?b = "example_remote\<lparr>port := 9999, services := 1\<rparr>"
  have r: "raw example_remote = raw ?b" by simp
  have pb: "port example_remote = 8333" "port ?b = 9999" by (simp_all add: example_remote_def)
  from equal_compare_raw_port[of example_remote ?b] r
  have c: "compare example_remote ?b = port example_remote - port ?b"
    and ne: "equal example_remote ?b \<longleftrightarrow> raw example_remote = raw ?b \<and> port example_remote = port ?b"
    by blast+
  from equal_compare_raw_port[of example_remote "example_remote\<lparr>services := 1, time := 7\<rparr>"]
  have "equal example_remote (example_remote\<lparr>services := 1, time := 7\<rparr>)"
    by simp
  with r c ne pb show ?thesis by simp
qed

section \<open>Validation and derived state: properties\<close>

subsection \<open>The 32-bit operators and the hexadecimal codec\<close>

lemma js_ushr0_mod: "js_ushr0 n = n mod 2 ^ 32"
  by (simp add: js_ushr0_def uint_word_of_int)

lemma js_ushr0_id: "js_ushr0 n = n \<longleftrightarrow> 0 \<le> n \<and> n < 2 ^ 32"
proof
  assume "js_ushr0 n = n"
  then have "n = n mod 2 ^ 32" by (simp add: js_ushr0_mod)
  then show "0 \<le> n \<and> n < 2 ^ 32"
    by (metis pos_mod_bound pos_mod_sign zero_less_numeral zero_less_power)
next
  assume "0 \<le> n \<and> n < 2 ^ 32"
  then show "js_ushr0 n = n" by (simp add: js_ushr0_mod)
qed

lemma js_bitand_ffff: "js_bitand p 0xffff = p mod 2 ^ 16"
proof -
  let ?x = "(word_of_int p :: 32 word) AND word_of_int 0xffff"
  have m: "(word_of_int 0xffff :: 32 word) = mask 16" by (simp add: mask_eq_exp_minus_1)
  have "uint ?x = uint (take_bit 16 (word_of_int p :: 32 word))"
    unfolding m by (simp only: take_bit_eq_mask)
  also have "\<dots> = take_bit 16 (uint (word_of_int p :: 32 word))"
    by (rule unsigned_take_bit_eq)
  also have "\<dots> = take_bit 16 p"
    by (simp add: uint_word_of_int_eq take_bit_take_bit)
  also have "\<dots> = p mod 2 ^ 16"
    by (simp add: take_bit_eq_mod)
  finally have u: "uint ?x = p mod 2 ^ 16" .
  have "uint ?x < 2 ^ 16" unfolding u by simp
  moreover have "(2::int) ^ 16 \<le> 2 ^ 31" by simp
  ultimately have hi: "uint ?x < 2 ^ 31" by (rule less_le_trans)
  have "- (2 ^ 31) \<le> (0::int)" by simp
  moreover have "0 \<le> uint ?x" by simp
  ultimately have lo: "- (2 ^ 31) \<le> uint ?x" by (rule order_trans)
  from lo hi
  have "signed_take_bit 31 (uint ?x) = uint ?x"
    by (rule signed_take_bit_int_eq_self)
  then have "sint ?x = uint ?x" by (simp add: sint_uint)
  with u show ?thesis by (simp add: js_bitand_def)
qed

lemma js_bitand_ffff_id: "js_bitand p 0xffff = p \<longleftrightarrow> 0 \<le> p \<and> p \<le> 0xffff"
proof
  assume "js_bitand p 0xffff = p"
  then have "p = p mod 2 ^ 16" by (simp add: js_bitand_ffff)
  then have "0 \<le> p \<and> p < 2 ^ 16"
    by (metis pos_mod_bound pos_mod_sign zero_less_numeral zero_less_power)
  then show "0 \<le> p \<and> p \<le> 0xffff" by simp
next
  assume "0 \<le> p \<and> p \<le> 0xffff"
  then show "js_bitand p 0xffff = p" by (simp add: js_bitand_ffff)
qed

lemma hex_val_digit: "n < 16 \<Longrightarrow> hex_val (hex_digit n) = Some n"
proof -
  assume "n < 16"
  then consider "n = 0" | "n = 1" | "n = 2" | "n = 3" | "n = 4" | "n = 5" | "n = 6" | "n = 7"
    | "n = 8" | "n = 9" | "n = 10" | "n = 11" | "n = 12" | "n = 13" | "n = 14" | "n = 15"
    by atomize_elim arith
  then show ?thesis
    by cases (simp_all add: hex_val_def hex_digit_def)
qed

lemma hex_byte: "(of_nat (16 * (unat b div 16) + unat b mod 16) :: byte) = b"
  by simp

lemma hex_decode_encode: "hex_decode (hex_encode bs) = bs"
proof (induction bs)
  case Nil
  show ?case by (simp add: hex_encode_def)
next
  case (Cons b bs)
  have d: "unat b div 16 < 16"
    using unsigned_less[of b, where 'a=nat] by simp
  have "hex_encode (b # bs) = hex_digit (unat b div 16) # hex_digit (unat b mod 16) # hex_encode bs"
    by (simp add: hex_encode_def)
  then show ?case
    using Cons.IH d by (simp add: hex_val_digit hex_byte del: of_nat_add of_nat_mult)
qed

subsection \<open>Hostname invariant\<close>

lemma set_hostname_Normal:
  "set_hostname ip a = (None, a') \<Longrightarrow>
   hostname_consistent ip a' \<and> a' = a\<lparr>hostname := hostname a'\<rparr>"
  by (auto simp: set_hostname_def hostname_consistent_def split: option.splits)

lemma and_then_Normal:
  "and_then m f = (None, a') \<Longrightarrow> \<exists>x. m = (None, x) \<and> f x = (None, a')"
  by (cases m) (auto simp: and_then_def split: option.splits)

lemma setPort_Normal:
  "setPort ip a p = (None, a') \<Longrightarrow>
   hostname_consistent ip a' \<and> a' = a\<lparr>port := p, hostname := hostname a'\<rparr>"
  by (auto simp: setPort_def split: if_splits dest!: set_hostname_Normal)

lemma setHost_Normal: "setHost ip a h = (None, a') \<Longrightarrow> hostname_consistent ip a'"
  by (auto simp: setHost_def split: option.splits dest: set_hostname_Normal)

lemma setKey_Normal: "setKey ip a k = (None, a') \<Longrightarrow> hostname_consistent ip a'"
  by (auto simp: setKey_def Let_def split: if_splits dest: set_hostname_Normal)

lemma setNull_Normal: "setNull ip a = (None, a') \<Longrightarrow> hostname_consistent ip a'"
  by (auto simp: setNull_def dest: set_hostname_Normal)

lemma fromOptions_Normal:
  "NetAddress_fromOptions ip a opts = (None, a') \<Longrightarrow> hostname_consistent ip a'"
  by (auto simp: NetAddress_fromOptions_def split: if_splits option.splits
        dest!: and_then_Normal dest: set_hostname_Normal)

lemma fromHost_Normal: "fromHost ip now a h p k = (None, a') \<Longrightarrow> hostname_consistent ip a'"
  by (auto simp: fromHost_def split: if_splits option.splits dest: set_hostname_Normal)

lemma fromJSON_Normal: "fromJSON ip a json = (None, a') \<Longrightarrow> hostname_consistent ip a'"
  by (simp add: fromJSON_def split: if_splits option.splits) (auto dest: set_hostname_Normal)

lemma read_tail_Normal:
  "NetAddress_read_tail ip a br = (None, a', br') \<Longrightarrow> hostname_consistent ip a'"
  by (auto simp: NetAddress_read_tail_def split: sum.splits prod.splits
        dest: set_hostname_Normal)

lemma read_Normal:
  "NetAddress_read ip a br = (None, a', br') \<Longrightarrow> hostname_consistent ip a'"
  by (auto simp: NetAddress_read_def split: sum.splits prod.splits if_splits
        dest: read_tail_Normal)

text \<open>
  Claim C4, as the code has it: whenever a mutator or injector (\<open>setHost\<close>,
  \<open>setPort\<close>, \<open>setKey\<close>, \<open>setNull\<close>, \<open>fromOptions\<close>, \<open>fromHost\<close>, \<open>fromJSON\<close>,
  \<open>read\<close>) returns normally, the hostname of the record is the composition of its
  current host, port and key. \<open>setPort\<close> returns normally on a port in range that
  the utility accepts, and changes the port and the hostname only.
\<close>

theorem hostname_recomputed:
  "(setHost ip a h = (None, a') \<longrightarrow> hostname_consistent ip a')
   \<and> (setPort ip a p = (None, a') \<longrightarrow>
        hostname_consistent ip a' \<and> a' = a\<lparr>port := p, hostname := hostname a'\<rparr>)
   \<and> (0 \<le> p \<and> p \<le> 0xffff \<and> toHostname ip (host a) p (key a) = Some hn \<longrightarrow>
        setPort ip a p = (None, a\<lparr>port := p, hostname := hn\<rparr>))
   \<and> (setKey ip a k = (None, a') \<longrightarrow> hostname_consistent ip a')
   \<and> (setNull ip a = (None, a') \<longrightarrow> hostname_consistent ip a')
   \<and> (NetAddress_fromOptions ip a opts = (None, a') \<longrightarrow> hostname_consistent ip a')
   \<and> (fromHost ip now a h p k = (None, a') \<longrightarrow> hostname_consistent ip a')
   \<and> (fromJSON ip a json = (None, a') \<longrightarrow> hostname_consistent ip a')
   \<and> (NetAddress_read ip a br = (None, a', br') \<longrightarrow> hostname_consistent ip a')"
proof -
  have sp: "0 \<le> p \<and> p \<le> 0xffff \<and> toHostname ip (host a) p (key a) = Some hn \<longrightarrow>
        setPort ip a p = (None, a\<lparr>port := p, hostname := hn\<rparr>)"
    by (simp add: setPort_def set_hostname_def)
  show ?thesis
    using setHost_Normal[of ip a h a'] setPort_Normal[of ip a p a'] sp
      setKey_Normal[of ip a k a'] setNull_Normal[of ip a a'] fromOptions_Normal[of ip a opts a']
      fromHost_Normal[of ip now a h p k a'] fromJSON_Normal[of ip a json a']
      read_Normal[of ip a br a' br']
    by blast
qed

theorem hostname_recomputed_witness:
  "0 \<le> (9999::int) \<and> (9999::int) \<le> 0xffff
   \<and> toHostname binet_ref (host example_remote) 9999 (key example_remote) = Some ''127.0.0.1:9999''
   \<and> setPort binet_ref example_remote 9999
       = (None, example_remote\<lparr>port := 9999, hostname := ''127.0.0.1:9999''\<rparr>)
   \<and> hostname_consistent binet_ref (example_remote\<lparr>port := 9999, hostname := ''127.0.0.1:9999''\<rparr>)"
proof -
  have h: "toHostname binet_ref (host example_remote) 9999 (key example_remote)
             = Some ''127.0.0.1:9999''"
    by (simp add: binet_ref_def example_remote_def ref_toHostname_def ref_compose_def ZERO_KEY_def dec_str.simps)
  from hostname_recomputed[of binet_ref example_remote _ _ 9999 "''127.0.0.1:9999''"] h
  have s: "setPort binet_ref example_remote 9999
       = (None, example_remote\<lparr>port := 9999, hostname := ''127.0.0.1:9999''\<rparr>)"
    by simp
  from hostname_recomputed[of binet_ref example_remote _
      "example_remote\<lparr>port := 9999, hostname := ''127.0.0.1:9999''\<rparr>" 9999] s
  have "hostname_consistent binet_ref (example_remote\<lparr>port := 9999, hostname := ''127.0.0.1:9999''\<rparr>)"
    by blast
  with h s show ?thesis by simp
qed

text \<open>
  Two calls that throw after they have assigned fields. \<open>fromOptions\<close> with a key
  of 2 bytes fails its assertion on the key after raw address, host and port are
  assigned: the record has host 1.2.3.4 and port 5, and still the hostname 0.0.0.0:0.
  \<open>read\<close> on the first 57 bytes of a record with port 9999 fails on the key after
  the port is assigned: the record has port 9999 and still the hostname
  127.0.0.1:8333.
\<close>

theorem stale_hostname_counterexample:
  "NetAddress_fromOptions binet_ref (NetAddress_new binet_ref) bad_key_options
     = (Some AssertionError,
        (NetAddress_new binet_ref)
          \<lparr>raw := [0, 0, 0, 0, 0, 0, 0, 0, 0, 0, 0xff, 0xff, 1, 2, 3, 4],
           host := JStr ''1.2.3.4'', port := 5\<rparr>)
   \<and> hostname ((NetAddress_new binet_ref)
          \<lparr>raw := [0, 0, 0, 0, 0, 0, 0, 0, 0, 0, 0xff, 0xff, 1, 2, 3, 4],
           host := JStr ''1.2.3.4'', port := 5\<rparr>) = ''0.0.0.0:0''
   \<and> toHostname binet_ref (JStr ''1.2.3.4'') 5 ZERO_KEY = Some ''1.2.3.4:5''
   \<and> \<not> hostname_consistent binet_ref ((NetAddress_new binet_ref)
          \<lparr>raw := [0, 0, 0, 0, 0, 0, 0, 0, 0, 0, 0xff, 0xff, 1, 2, 3, 4],
           host := JStr ''1.2.3.4'', port := 5\<rparr>)
   \<and> NetAddress_read binet_ref example_remote
         (take 57 (NetAddress_write [] (example_remote\<lparr>port := 9999\<rparr>)))
       = (Some EncodingError, example_remote\<lparr>port := 9999\<rparr>, [0, 0])
   \<and> hostname (example_remote\<lparr>port := 9999\<rparr>) = ''127.0.0.1:8333''
   \<and> \<not> hostname_consistent binet_ref (example_remote\<lparr>port := 9999\<rparr>)"
proof -
  have tb: "ref_toBuffer (JStr ''1.2.3.4'') = Some [0, 0, 0, 0, 0, 0, 0, 0, 0, 0, 0xff, 0xff, 1, 2, 3, 4]"
    by (simp add: ref_toBuffer_def ref_parse_def dec_val_def IPV4_PREFIX_def)
  have ts: "ref_toString [0, 0, 0, 0, 0, 0, 0, 0, 0, 0, 0xff, 0xff, 1, 2, 3, 4] = ''1.2.3.4''"
    by (simp add: ref_toString_def has_prefix_def IPV4_PREFIX_def dec_str.simps)
  have th: "toHostname binet_ref (JStr ''1.2.3.4'') 5 ZERO_KEY = Some ''1.2.3.4:5''"
    by (simp add: binet_ref_def ref_toHostname_def ref_compose_def ZERO_KEY_def dec_str.simps)
  have a: "NetAddress_fromOptions binet_ref (NetAddress_new binet_ref) bad_key_options
     = (Some AssertionError,
        (NetAddress_new binet_ref)
          \<lparr>raw := [0, 0, 0, 0, 0, 0, 0, 0, 0, 0, 0xff, 0xff, 1, 2, 3, 4],
           host := JStr ''1.2.3.4'', port := 5\<rparr>)"
    by (simp add: NetAddress_fromOptions_def bad_key_options_def and_then_def
          fromOptions_services_def fromOptions_time_def fromOptions_key_def
          binet_ref_def tb ts)
  have b: "hostname ((NetAddress_new binet_ref)
          \<lparr>raw := [0, 0, 0, 0, 0, 0, 0, 0, 0, 0, 0xff, 0xff, 1, 2, 3, 4],
           host := JStr ''1.2.3.4'', port := 5\<rparr>) = ''0.0.0.0:0''"
    by (simp add: NetAddress_new_def)
  have c: "\<not> hostname_consistent binet_ref ((NetAddress_new binet_ref)
          \<lparr>raw := [0, 0, 0, 0, 0, 0, 0, 0, 0, 0, 0xff, 0xff, 1, 2, 3, 4],
           host := JStr ''1.2.3.4'', port := 5\<rparr>)"
    using th by (simp add: hostname_consistent_def NetAddress_new_def)
  let ?r = "example_remote\<lparr>port := 9999\<rparr>"
  have lr: "length (raw example_remote) = 16" and lk: "key example_remote = replicate 33 0"
    by (simp_all add: example_remote_def ZERO_KEY_def)
  have bytes: "take 57 (NetAddress_write [] ?r) =
      le_bytes 8 (time example_remote) @ le_bytes 4 (services example_remote) @ le_bytes 4 0
      @ le_bytes (Suc 0) 0 @ raw example_remote @ replicate 20 0 @ le_bytes 2 9999 @ [0, 0]"
    by (simp add: NetAddress_write_bytes length_le_bytes lr lk del: le_bytes.simps)
       (simp add: replicate_numeral)
  have t: "0 \<le> time example_remote" "time example_remote \<le> 2 ^ 53 - 1"
    and s: "0 \<le> services example_remote" "services example_remote < 2 ^ 32"
    by (simp_all add: example_remote_def)
  have hi: "readU32 (le_bytes 4 0 @ xs) = Inr (0, xs)" for xs
    by (rule readU32_write) simp_all
  have d: "readU8 (le_bytes (Suc 0) 0 @ xs) = Inr (0, xs)" for xs
    by (rule readU8_write) simp_all
  have pad: "seek 20 (replicate 20 0 @ xs) = Inr xs" for xs
    by (rule seek_append) simp
  have pt: "readU16 (le_bytes 2 9999 @ xs) = Inr (9999, xs)" for xs
    by (rule readU16_write) simp_all
  have ky: "readBytes 33 [0, 0] = Inl EncodingError"
    by (simp add: readBytes_def)
  have eq: "example_remote\<lparr>time := time example_remote, services := services example_remote,
              raw := raw example_remote, port := 9999\<rparr> = ?r"
    by simp
  have e: "NetAddress_read binet_ref example_remote (take 57 (NetAddress_write [] ?r))
       = (Some EncodingError, ?r, [0, 0])"
    unfolding bytes NetAddress_read_def
    by (simp add: readU64_write[OF t] readU32_write[OF s] hi d readBytes_append[OF lr] pad
          NetAddress_read_tail_def pt ky eq del: le_bytes.simps)
  have f: "hostname ?r = ''127.0.0.1:8333''" by (simp add: example_remote_def)
  have "toHostname binet_ref (host ?r) (port ?r) (key ?r) = Some ''127.0.0.1:9999''"
    by (simp add: binet_ref_def example_remote_def ref_toHostname_def ref_compose_def ZERO_KEY_def dec_str.simps)
  then have g: "\<not> hostname_consistent binet_ref ?r"
    using f by (simp add: hostname_consistent_def)
  from a b th c e f g show ?thesis by blast
qed

section \<open>JSON, eager validation and construction: properties\<close>

text \<open>
  Claim C8, as the code has it: for a valid record whose time is below \<open>2^32\<close> and
  whose host text converts back to its raw address, \<open>fromJSON(toJSON(r))\<close> returns
  normally and the record it leaves equals \<open>r\<close> in every field; the JSON form
  carries host, port, services and time as they are and the key in hexadecimal.
\<close>

theorem json_roundtrip:
  assumes "valid_NetAddress ip r"
    and "time r < 2 ^ 32"
    and "toBuffer ip (host r) = Some (raw r)"
  shows "fromJSON ip a0 (getJSON r) = (None, r)
         \<and> getJSON r =
             \<lparr> j_host = JStr (toString ip (raw r)), j_port = JNum (port r),
               j_services = JNum (services r), j_time = JNum (time r),
               j_key = JStr (hex_encode (key r)) \<rparr>
         \<and> hex_decode (hex_encode (key r)) = key r"
proof -
  from assms(1)[unfolded valid_NetAddress_def] have t: "0 \<le> time r"
    and s: "0 \<le> services r" "services r < 2 ^ 32"
    and p: "0 \<le> port r" "port r \<le> 0xffff"
    and hn: "toHostname ip (host r) (port r) (key r) = Some (hostname r)"
    and h: "host r = JStr (toString ip (raw r))"
    by blast+
  have pj: "js_bitand (port r) 0xffff = port r"
    using p by (simp add: js_bitand_ffff_id)
  have sj: "js_ushr0 (services r) = services r"
    using s by (simp add: js_ushr0_id)
  have tj: "js_ushr0 (time r) = time r"
    using t assms(2) by (simp add: js_ushr0_id)
  have eq: "a0\<lparr>raw := raw r, host := host r, port := port r, services := services r,
               time := time r, key := key r, hostname := hostname r\<rparr> = r"
    by (cases r, cases a0) simp
  have f: "fromJSON ip a0 (getJSON r) = (None, r)"
    by (simp add: fromJSON_def getJSON_def pj sj tj assms(3) hex_decode_encode
          set_hostname_def hn eq)
  have g: "getJSON r =
             \<lparr> j_host = JStr (toString ip (raw r)), j_port = JNum (port r),
               j_services = JNum (services r), j_time = JNum (time r),
               j_key = JStr (hex_encode (key r)) \<rparr>"
    using h by (simp add: getJSON_def)
  from f g show ?thesis by (simp add: hex_decode_encode)
qed

lemma ms_remote_valid: "valid_NetAddress binet_ref ms_remote"
  by (simp add: valid_NetAddress_def ms_remote_def example_remote_def binet_ref_def ZERO_KEY_def
        ref_toString_def ref_toHostname_def ref_compose_def has_prefix_def IPV4_PREFIX_def dec_str.simps)

lemma example_toBuffer: "toBuffer binet_ref (host example_remote) = Some (raw example_remote)"
  by (simp add: binet_ref_def example_remote_def ref_toBuffer_def ref_parse_def dec_val_def IPV4_PREFIX_def)

theorem json_roundtrip_witness:
  "valid_NetAddress binet_ref example_remote
   \<and> time example_remote < 2 ^ 32
   \<and> toBuffer binet_ref (host example_remote) = Some (raw example_remote)
   \<and> fromJSON binet_ref (NetAddress_new binet_ref) (getJSON example_remote)
       = (None, example_remote)"
proof -
  have t: "time example_remote < 2 ^ 32" by (simp add: example_remote_def)
  from json_roundtrip[OF example_remote_valid t example_toBuffer, of "NetAddress_new binet_ref"]
  show ?thesis using example_remote_valid t example_toBuffer by blast
qed

text \<open>
  \<open>fromHost\<close> stamps the record with \<open>Date.now()\<close>, milliseconds. Such a record
  is valid, and \<open>fromJSON\<close> rejects its JSON form: the time is not below \<open>2^32\<close>.
\<close>

theorem json_millisecond_time_counterexample:
  "NetAddress_fromHost binet_ref 1700000000000 (JStr ''127.0.0.1'') 8333 JNull = (None, ms_remote)
   \<and> valid_NetAddress binet_ref ms_remote
   \<and> toBuffer binet_ref (host ms_remote) = Some (raw ms_remote)
   \<and> fromJSON binet_ref (NetAddress_new binet_ref) (getJSON ms_remote)
       = (Some AssertionError, NetAddress_new binet_ref)"
proof -
  have tb: "ref_toBuffer (JStr ''127.0.0.1'') = Some [0, 0, 0, 0, 0, 0, 0, 0, 0, 0, 0xff, 0xff, 127, 0, 0, 1]"
    by (simp add: ref_toBuffer_def ref_parse_def dec_val_def IPV4_PREFIX_def)
  have ts: "ref_toString [0, 0, 0, 0, 0, 0, 0, 0, 0, 0, 0xff, 0xff, 127, 0, 0, 1] = ''127.0.0.1''"
    by (simp add: ref_toString_def has_prefix_def IPV4_PREFIX_def dec_str.simps)
  have th: "ref_toHostname (JStr ''127.0.0.1'') 8333 ZERO_KEY = Some ''127.0.0.1:8333''"
    by (simp add: ref_toHostname_def ref_compose_def ZERO_KEY_def dec_str.simps)
  have a: "NetAddress_fromHost binet_ref 1700000000000 (JStr ''127.0.0.1'') 8333 JNull = (None, ms_remote)"
    by (simp add: NetAddress_fromHost_def fromHost_def binet_ref_def tb ts th set_hostname_def
          NetAddress_new_def ms_remote_def example_remote_def DEFAULT_SERVICES_def)
  have b: "toBuffer binet_ref (host ms_remote) = Some (raw ms_remote)"
    using example_toBuffer by (simp add: ms_remote_def)
  have "js_ushr0 1700000000000 \<noteq> 1700000000000"
    by (simp add: js_ushr0_id)
  moreover have "js_bitand 8333 0xffff = 8333" "js_ushr0 0 = 0"
    by (simp_all add: js_bitand_ffff_id js_ushr0_id)
  ultimately have c: "fromJSON binet_ref (NetAddress_new binet_ref) (getJSON ms_remote)
       = (Some AssertionError, NetAddress_new binet_ref)"
    by (simp add: fromJSON_def getJSON_def ms_remote_def example_remote_def)
  from a ms_remote_valid b c show ?thesis by blast
qed


lemma fromOptions_rejects:
  assumes "typeof (o_host opts) \<noteq> T_string \<or> typeof (o_port opts) \<noteq> T_number
           \<or> the_num (o_port opts) < 0 \<or> the_num (o_port opts) > 0xffff"
  shows "NetAddress_fromOptions ip a opts = (Some AssertionError, a)"
  using assms by (auto simp: NetAddress_fromOptions_def)

lemma fromOptions_key_late:
  assumes "typeof (o_host opts) = T_string" and "typeof (o_port opts) = T_number"
    and "0 \<le> the_num (o_port opts)" and "the_num (o_port opts) \<le> 0xffff"
    and "truthy (o_key opts)"
    and "\<not> (isBuffer (o_key opts) \<and> length (the_buf (o_key opts)) = 33)"
  shows "(toBuffer ip (o_host opts) = None \<longrightarrow>
            NetAddress_fromOptions ip a opts = (Some AddressError, a))
         \<and> (toBuffer ip (o_host opts) = Some r \<longrightarrow>
              fst (NetAddress_fromOptions ip a opts) = Some AssertionError
              \<and> raw (snd (NetAddress_fromOptions ip a opts)) = r
              \<and> host (snd (NetAddress_fromOptions ip a opts)) = JStr (toString ip r)
              \<and> port (snd (NetAddress_fromOptions ip a opts)) = the_num (o_port opts)
              \<and> key (snd (NetAddress_fromOptions ip a opts)) = key a
              \<and> hostname (snd (NetAddress_fromOptions ip a opts)) = hostname a)"
  using assms
  by (auto simp: NetAddress_fromOptions_def and_then_def fromOptions_services_def
        fromOptions_time_def fromOptions_key_def)

lemma fromJSON_rejects:
  assumes "typeof (j_port json) \<noteq> T_number
           \<or> the_num (j_port json) < 0 \<or> the_num (j_port json) > 0xffff
           \<or> typeof (j_services json) \<noteq> T_number
           \<or> the_num (j_services json) < 0 \<or> the_num (j_services json) \<ge> 2 ^ 32
           \<or> typeof (j_time json) \<noteq> T_number
           \<or> the_num (j_time json) < 0 \<or> the_num (j_time json) \<ge> 2 ^ 32
           \<or> typeof (j_key json) \<noteq> T_string"
  shows "fromJSON ip a json = (Some AssertionError, a)"
  using assms by (auto simp: fromJSON_def js_bitand_ffff_id js_ushr0_id)

lemma fromJSON_passes:
  assumes "typeof (j_port json) = T_number"
    and "0 \<le> the_num (j_port json)" and "the_num (j_port json) \<le> 0xffff"
    and "typeof (j_services json) = T_number"
    and "0 \<le> the_num (j_services json)" and "the_num (j_services json) < 2 ^ 32"
    and "typeof (j_time json) = T_number"
    and "0 \<le> the_num (j_time json)" and "the_num (j_time json) < 2 ^ 32"
    and "typeof (j_key json) = T_string"
  shows "fromJSON ip a json =
    (case toBuffer ip (j_host json) of
       None \<Rightarrow> (Some AddressError, a)
     | Some r \<Rightarrow>
        (case toHostname ip (j_host json) (the_num (j_port json))
                (hex_decode (the_str (j_key json))) of
           None \<Rightarrow>
             (Some AddressError,
              a\<lparr>raw := r, host := j_host json, port := the_num (j_port json),
                services := the_num (j_services json), time := the_num (j_time json),
                key := hex_decode (the_str (j_key json))\<rparr>)
         | Some hn \<Rightarrow>
             (None,
              a\<lparr>raw := r, host := j_host json, port := the_num (j_port json),
                services := the_num (j_services json), time := the_num (j_time json),
                key := hex_decode (the_str (j_key json)), hostname := hn\<rparr>)))"
proof -
  have "js_bitand (the_num (j_port json)) 0xffff = the_num (j_port json)"
    "js_ushr0 (the_num (j_services json)) = the_num (j_services json)"
    "js_ushr0 (the_num (j_time json)) = the_num (j_time json)"
    using assms by (simp_all add: js_bitand_ffff_id js_ushr0_id)
  then show ?thesis
    using assms by (simp add: fromJSON_def set_hostname_def split: option.splits)
qed

text \<open>
  Claim C9, as the code has it. Each of the four operations throws, returning no
  record, on the inputs its own assertions reject, but not every check comes before
  the assignments, and \<open>fromJSON\<close> leaves two checks to the address utility.
  \<open>fromOptions\<close> (and the constructor with options) asserts before assigning
  anything that the host is a string and the port a number from 0 to 65535; it
  asserts that a present key is a buffer of 33 bytes only after raw address, host and
  port are assigned, so the receiver has them when it throws. \<open>setPort\<close> and
  \<open>setKey\<close> assert their argument before assigning. \<open>fromJSON\<close> asserts before
  assigning anything that port, services and time are numbers in range and that the
  key is a string. It asserts nothing about the type of the host or the length of the
  decoded key: when its assertions pass, the call throws exactly when the utility
  rejects the host (before any assignment) or the hostname composition (after every
  field but the hostname is assigned), and returns normally otherwise.
\<close>

theorem validation_points:
  "(typeof (o_host opts) \<noteq> T_string \<or> typeof (o_port opts) \<noteq> T_number
      \<or> the_num (o_port opts) < 0 \<or> the_num (o_port opts) > 0xffff \<longrightarrow>
      NetAddress_fromOptions ip a opts = (Some AssertionError, a)
      \<and> NetAddress_constructor ip (Some opts) = (Some AssertionError, NetAddress_new ip))
   \<and> (typeof (o_host opts) = T_string \<and> typeof (o_port opts) = T_number
        \<and> 0 \<le> the_num (o_port opts) \<and> the_num (o_port opts) \<le> 0xffff
        \<and> truthy (o_key opts)
        \<and> \<not> (isBuffer (o_key opts) \<and> length (the_buf (o_key opts)) = 33) \<longrightarrow>
        (toBuffer ip (o_host opts) = None \<longrightarrow>
            NetAddress_fromOptions ip a opts = (Some AddressError, a))
        \<and> (toBuffer ip (o_host opts) = Some r \<longrightarrow>
              fst (NetAddress_fromOptions ip a opts) = Some AssertionError
              \<and> raw (snd (NetAddress_fromOptions ip a opts)) = r
              \<and> host (snd (NetAddress_fromOptions ip a opts)) = JStr (toString ip r)
              \<and> port (snd (NetAddress_fromOptions ip a opts)) = the_num (o_port opts)
              \<and> key (snd (NetAddress_fromOptions ip a opts)) = key a
              \<and> hostname (snd (NetAddress_fromOptions ip a opts)) = hostname a))
   \<and> (p < 0 \<or> p > 0xffff \<longrightarrow> setPort ip a p = (Some AssertionError, a))
   \<and> (k \<noteq> JNull \<and> k \<noteq> JUndefined \<and> \<not> (isBuffer k \<and> length (the_buf k) = 33) \<longrightarrow>
        setKey ip a k = (Some AssertionError, a))
   \<and> (typeof (j_port json) \<noteq> T_number
        \<or> the_num (j_port json) < 0 \<or> the_num (j_port json) > 0xffff
        \<or> typeof (j_services json) \<noteq> T_number
        \<or> the_num (j_services json) < 0 \<or> the_num (j_services json) \<ge> 2 ^ 32
        \<or> typeof (j_time json) \<noteq> T_number
        \<or> the_num (j_time json) < 0 \<or> the_num (j_time json) \<ge> 2 ^ 32
        \<or> typeof (j_key json) \<noteq> T_string \<longrightarrow>
        fromJSON ip a json = (Some AssertionError, a))
   \<and> (typeof (j_port json) = T_number
        \<and> 0 \<le> the_num (j_port json) \<and> the_num (j_port json) \<le> 0xffff
        \<and> typeof (j_services json) = T_number
        \<and> 0 \<le> the_num (j_services json) \<and> the_num (j_services json) < 2 ^ 32
        \<and> typeof (j_time json) = T_number
        \<and> 0 \<le> the_num (j_time json) \<and> the_num (j_time json) < 2 ^ 32
        \<and> typeof (j_key json) = T_string \<longrightarrow>
        fromJSON ip a json =
          (case toBuffer ip (j_host json) of
             None \<Rightarrow> (Some AddressError, a)
           | Some r \<Rightarrow>
              (case toHostname ip (j_host json) (the_num (j_port json))
                      (hex_decode (the_str (j_key json))) of
                 None \<Rightarrow>
                   (Some AddressError,
                    a\<lparr>raw := r, host := j_host json, port := the_num (j_port json),
                      services := the_num (j_services json), time := the_num (j_time json),
                      key := hex_decode (the_str (j_key json))\<rparr>)
               | Some hn \<Rightarrow>
                   (None,
                    a\<lparr>raw := r, host := j_host json, port := the_num (j_port json),
                      services := the_num (j_services json), time := the_num (j_time json),
                      key := hex_decode (the_str (j_key json)), hostname := hn\<rparr>))))"
proof -
  have c1: "typeof (o_host opts) \<noteq> T_string \<or> typeof (o_port opts) \<noteq> T_number
      \<or> the_num (o_port opts) < 0 \<or> the_num (o_port opts) > 0xffff \<longrightarrow>
      NetAddress_fromOptions ip a opts = (Some AssertionError, a)
      \<and> NetAddress_constructor ip (Some opts) = (Some AssertionError, NetAddress_new ip)"
    using fromOptions_rejects[of opts ip a] fromOptions_rejects[of opts ip "NetAddress_new ip"]
    by (simp add: NetAddress_constructor_def)
  note c2 = fromOptions_key_late[of opts ip a r]
  have c3: "p < 0 \<or> p > 0xffff \<longrightarrow> setPort ip a p = (Some AssertionError, a)"
    by (auto simp: setPort_def)
  have c4: "k \<noteq> JNull \<and> k \<noteq> JUndefined \<and> \<not> (isBuffer k \<and> length (the_buf k) = 33) \<longrightarrow>
        setKey ip a k = (Some AssertionError, a)"
    by (auto simp: setKey_def)
  note c5 = fromJSON_rejects[of json ip a]
  note c6 = fromJSON_passes[of json ip a]
  show ?thesis
    apply (intro conjI)
         apply (rule c1)
        apply (use c2 in blast)
       apply (rule c3)
      apply (rule c4)
     apply (use c5 in blast)
    apply (use c6 in blast)
    done
qed

theorem validation_points_witness:
  "setPort binet_ref example_remote 65536 = (Some AssertionError, example_remote)
   \<and> setKey binet_ref example_remote (JBuf (replicate 32 7)) = (Some AssertionError, example_remote)
   \<and> NetAddress_fromOptions binet_ref example_remote (bad_key_options\<lparr>o_port := JNum 70000\<rparr>)
       = (Some AssertionError, example_remote)
   \<and> toBuffer binet_ref (o_host bad_key_options)
       = Some [0, 0, 0, 0, 0, 0, 0, 0, 0, 0, 0xff, 0xff, 1, 2, 3, 4]
   \<and> fst (NetAddress_fromOptions binet_ref ms_remote bad_key_options) = Some AssertionError
   \<and> port (snd (NetAddress_fromOptions binet_ref ms_remote bad_key_options)) = 5
   \<and> hostname (snd (NetAddress_fromOptions binet_ref ms_remote bad_key_options))
       = ''127.0.0.1:8333''
   \<and> fromJSON binet_ref example_remote ((getJSON example_remote)\<lparr>j_port := JNum (- 1)\<rparr>)
       = (Some AssertionError, example_remote)
   \<and> fromJSON binet_ref ms_remote (getJSON example_remote) = (None, example_remote)"
proof -
  have tb: "toBuffer binet_ref (o_host bad_key_options)
       = Some [0, 0, 0, 0, 0, 0, 0, 0, 0, 0, 0xff, 0xff, 1, 2, 3, 4]"
    by (simp add: binet_ref_def bad_key_options_def ref_toBuffer_def ref_parse_def dec_val_def
          IPV4_PREFIX_def)
  have a: "setPort binet_ref example_remote 65536 = (Some AssertionError, example_remote)"
    using validation_points[where ip = binet_ref and a = example_remote and p = 65536] by simp
  have b: "setKey binet_ref example_remote (JBuf (replicate 32 7)) = (Some AssertionError, example_remote)"
    using validation_points[where ip = binet_ref and a = example_remote
        and k = "JBuf (replicate 32 7)"] by simp
  have c: "NetAddress_fromOptions binet_ref example_remote (bad_key_options\<lparr>o_port := JNum 70000\<rparr>)
       = (Some AssertionError, example_remote)"
    using validation_points[where ip = binet_ref and a = example_remote
        and opts = "bad_key_options\<lparr>o_port := JNum 70000\<rparr>"]
    by simp
  have d: "fst (NetAddress_fromOptions binet_ref ms_remote bad_key_options) = Some AssertionError
      \<and> port (snd (NetAddress_fromOptions binet_ref ms_remote bad_key_options)) = 5
      \<and> hostname (snd (NetAddress_fromOptions binet_ref ms_remote bad_key_options))
          = hostname ms_remote"
    using validation_points[where ip = binet_ref and a = ms_remote and opts = bad_key_options
        and r = "[0, 0, 0, 0, 0, 0, 0, 0, 0, 0, 0xff, 0xff, 1, 2, 3, 4]"] tb
    by (simp add: bad_key_options_def)
  have hn: "hostname ms_remote = ''127.0.0.1:8333''"
    by (simp add: ms_remote_def example_remote_def)
  have e: "fromJSON binet_ref example_remote ((getJSON example_remote)\<lparr>j_port := JNum (- 1)\<rparr>)
       = (Some AssertionError, example_remote)"
    using validation_points[where ip = binet_ref and a = example_remote
        and json = "(getJSON example_remote)\<lparr>j_port := JNum (- 1)\<rparr>"]
    by simp
  have eq: "ms_remote\<lparr>raw := raw example_remote, host := host example_remote,
              port := port example_remote, services := services example_remote,
              time := time example_remote, key := key example_remote,
              hostname := hostname example_remote\<rparr> = example_remote"
    by (simp add: ms_remote_def)
  have v: "toHostname binet_ref (host example_remote) (port example_remote) (key example_remote)
             = Some (hostname example_remote)"
    using example_remote_valid[unfolded valid_NetAddress_def] by blast
  have rng: "0 \<le> port example_remote" "port example_remote \<le> 0xffff"
    "0 \<le> services example_remote" "services example_remote < 2 ^ 32"
    "0 \<le> time example_remote" "time example_remote < 2 ^ 32"
    by (simp_all add: example_remote_def)
  have f: "fromJSON binet_ref ms_remote (getJSON example_remote) = (None, example_remote)"
    using validation_points[where ip = binet_ref and a = ms_remote
        and json = "getJSON example_remote"] rng
    by (simp add: getJSON_def hex_decode_encode example_toBuffer v eq)
  from a b c tb d hn e f show ?thesis by simp
qed

text \<open>
  Two throws that are not eager. \<open>fromOptions\<close> with a key of 2 bytes, called on the
  example record, fails its assertion on the key when the record already has the new
  raw address, host and port. \<open>fromJSON\<close> with the key \<open>''00''\<close>, one byte, and port
  9999 passes every assertion of \<open>fromJSON\<close>; the call throws in the hostname
  composition of the utility, when the record already has the new port and the
  1-byte key.
\<close>

theorem late_validation_counterexample:
  "NetAddress_fromOptions binet_ref example_remote bad_key_options
     = (Some AssertionError,
        example_remote\<lparr>raw := [0, 0, 0, 0, 0, 0, 0, 0, 0, 0, 0xff, 0xff, 1, 2, 3, 4],
                        host := JStr ''1.2.3.4'', port := 5\<rparr>)
   \<and> port example_remote = 8333
   \<and> fromJSON binet_ref example_remote
        ((getJSON example_remote)\<lparr>j_port := JNum 9999, j_key := JStr ''00''\<rparr>)
     = (Some AddressError, example_remote\<lparr>port := 9999, key := [0]\<rparr>)
   \<and> length (key example_remote) = 33"
proof -
  have tb: "ref_parse ''1.2.3.4'' = Some [0, 0, 0, 0, 0, 0, 0, 0, 0, 0, 0xff, 0xff, 1, 2, 3, 4]"
    by (simp add: ref_parse_def dec_val_def IPV4_PREFIX_def)
  have ts: "ref_toString [0, 0, 0, 0, 0, 0, 0, 0, 0, 0, 0xff, 0xff, 1, 2, 3, 4] = ''1.2.3.4''"
    by (simp add: ref_toString_def has_prefix_def IPV4_PREFIX_def dec_str.simps)
  have a: "NetAddress_fromOptions binet_ref example_remote bad_key_options
     = (Some AssertionError,
        example_remote\<lparr>raw := [0, 0, 0, 0, 0, 0, 0, 0, 0, 0, 0xff, 0xff, 1, 2, 3, 4],
                        host := JStr ''1.2.3.4'', port := 5\<rparr>)"
    by (simp add: NetAddress_fromOptions_def bad_key_options_def and_then_def
          fromOptions_services_def fromOptions_time_def fromOptions_key_def
          binet_ref_def ref_toBuffer_def tb ts)
  have b: "port example_remote = 8333" "length (key example_remote) = 33"
    by (simp_all add: example_remote_def ZERO_KEY_def)
  have j: "js_bitand 9999 0xffff = 9999" "js_ushr0 0 = 0" "js_ushr0 1700000000 = 1700000000"
    by (simp_all add: js_bitand_ffff_id js_ushr0_id)
  have hd: "hex_decode ''00'' = [0]" by (simp add: hex_val_def)
  have eq: "example_remote\<lparr>raw := raw example_remote, host := host example_remote,
              port := 9999, services := services example_remote,
              time := time example_remote, key := [0]\<rparr> = example_remote\<lparr>port := 9999, key := [0]\<rparr>"
    by simp
  have rw: "ref_toBuffer (JStr ''127.0.0.1'')
              = Some [0, 0, 0, 0, 0, 0, 0, 0, 0, 0, 0xff, 0xff, 127, 0, 0, 1]"
    using example_toBuffer by (simp add: example_remote_def binet_ref_def)
  have c: "fromJSON binet_ref example_remote
        ((getJSON example_remote)\<lparr>j_port := JNum 9999, j_key := JStr ''00''\<rparr>)
     = (Some AddressError, example_remote\<lparr>port := 9999, key := [0]\<rparr>)"
    unfolding fromJSON_def getJSON_def set_hostname_def
    by (simp add: example_remote_def j hd rw binet_ref_def ref_toHostname_def ref_compose_def
          del: hex_decode.simps)
  from a b c show ?thesis by simp
qed

text \<open>
  Claim C6, evaluated on the code: \<open>new VersionPacket()\<close> throws, since the name
  \<open>NetAddress\<close> is not bound to the class. With the name bound to the class, the
  defaults are type VERSION, version 70015, services 0, the current time, a default
  address record, height 0 and noRelay false, but nonce and agent are \<open>undefined\<close>:
  \<open>common\<close> has neither \<open>ZERO_NONCE\<close> nor \<open>USER_AGENT\<close>. Such a packet cannot be
  written.
\<close>

theorem constructor_defaults:
  "VersionPacket_constructor ip packets_NetAddress now None = Inl TypeError
   \<and> VersionPacket_constructor ip (Some NetAddress_new) now None =
       Inr \<lparr> v_type = 0, version = 70015, v_services = 0, v_time = now,
             remote = NetAddress_new ip, nonce = None, agent = None,
             height = 0, noRelay = False \<rparr>
   \<and> get_prop common ''ZERO_NONCE'' = JUndefined
   \<and> get_prop common ''USER_AGENT'' = JUndefined
   \<and> VersionPacket_write [] \<lparr> v_type = 0, version = 70015, v_services = 0, v_time = now,
             remote = NetAddress_new ip, nonce = None, agent = None,
             height = 0, noRelay = False \<rparr> = Inl TypeError"
  by (simp add: VersionPacket_constructor_def packets_NetAddress_def get_prop_def common_def
        as_buffer_def as_string_def types_def VersionPacket_write_def)

end
